theory Spec2Isabelle
  imports Complex_Main "HOL-Library.AList"
begin

section \<open>CausalLift: the two-model uplift session of causal\_lift.py\<close>

text \<open>
  The development embeds the class \<open>CausalLift\<close> of \<^verbatim>\<open>src/causallift/causal_lift.py\<close>:
  its constructor, \<open>_separate_train_test\<close>, \<open>estimate_cate_by_2_models\<close> and
  \<open>estimate_recommendation_impact\<close> with its inner functions \<open>recommendation_by_cate\<close> and
  \<open>recommendation\<close>.

  Modelling decisions.
  \<^item> The cells of a sample table, the CATE values and the treatment fractions are finite
    float64 values, taken as real numbers with exact arithmetic. The counts and rates of the
    impact tables, on which the aggregation computes, are float64 values with the rounding
    of IEEE 754, NaN and the two infinities.
  \<^item> A DataFrame is an object in a store; the session holds the address of its combined
    table, which the code updates in place. Every raise of the code is an \<open>Inl\<close> result;
    the state reached before a raise is kept, as Python keeps it.
  \<^item> The modules \<^verbatim>\<open>nodes/utils\<close>, \<^verbatim>\<open>nodes/model_for_each\<close> and
    \<^verbatim>\<open>nodes/estimate_propensity\<close> are not part of the source at hand. The estimators
    (\<open>estimate_propensity\<close>, \<open>treatment_fractions_\<close>, and the methods \<open>fit\<close>,
    \<open>predict_proba\<close>, \<open>simulate_recommendation\<close> of the two model objects) are
    parameters: functions of the values they are passed, which may fail. Each call of one of
    them is recorded as an event. The small table utilities are modelled from the
    specification and marked as such.
\<close>

subsection \<open>The ranking of pandas and the inner function \<open>recommendation\<close>\<close>

text \<open>
  \<^verbatim>\<open>Series.rank(method='first', ascending=False, pct=True)\<close> of pandas: the rank of an entry
  is one more than the number of entries that come before it in the descending order, where
  of two equal values the one that appears earlier in the series comes first; with
  \<^verbatim>\<open>pct=True\<close> the rank is divided by the number of entries.
\<close>

definition comes_before :: "real list \<Rightarrow> nat \<Rightarrow> nat \<Rightarrow> bool" where
  "comes_before xs j i = (xs ! i < xs ! j \<or> (xs ! j = xs ! i \<and> j < i))"

definition rank_first_descending :: "real list \<Rightarrow> nat list" where
  "rank_first_descending xs =
     map (\<lambda>i. Suc (length (filter (\<lambda>j. comes_before xs j i) [0..<length xs])))
         [0..<length xs]"

definition rank_pct :: "real list \<Rightarrow> real list" where
  "rank_pct xs = map (\<lambda>r. real r / real (length xs)) (rank_first_descending xs)"

text \<open>
  \<^verbatim>\<open>
  def recommendation(cate_series, treatment_fraction):
      rank_series = cate_series.rank(method='first', ascending=False, pct=True)
      r = np.where(rank_series <= treatment_fraction, 1.0, 0.0)
      return r
  \<close>
\<close>

definition recommendation :: "real list \<Rightarrow> real \<Rightarrow> real list" where
  "recommendation cate_series treatment_fraction =
     (let rank_series = rank_pct cate_series
      in map (\<lambda>p. if p \<le> treatment_fraction then 1 else 0) rank_series)"

text \<open>The number of rows that a recommendation array marks with 1.\<close>

definition count_recommended :: "real list \<Rightarrow> nat" where
  "count_recommended r = length (filter (\<lambda>v. v = 1) r)"

subsection \<open>float64 values of the impact tables\<close>

text \<open>
  A float64 is a finite number, an infinity (\<open>Infinite True\<close> is the positive one) or NaN.
  \<open>round64\<close> is the rounding of IEEE 754 binary64 in its default mode: to the nearest
  number with 53 significant bits, a tie to the one with an even significand; below
  \<open>2 powi (- 1022)\<close> the spacing stays \<open>2 powi (- 1074)\<close> (gradual underflow), and a
  result of magnitude \<open>2 ^ 1024\<close> or more is an infinity. Every operation rounds its exact
  result. numpy and pandas return these results and raise nothing, also on a division by
  zero. The sign of a zero is not kept.
\<close>

datatype float64 = Finite real | Infinite bool | NaN

definition round_half_even :: "real \<Rightarrow> int" where
  "round_half_even y =
     (let f = \<lfloor>y\<rfloor>; r = y - of_int f
      in if r < 1 / 2 then f else if 1 / 2 < r then f + 1 else if even f then f else f + 1)"

definition round64 :: "real \<Rightarrow> float64" where
  "round64 x =
     (if x = 0 then Finite 0
      else let e = max \<lfloor>log 2 \<bar>x\<bar>\<rfloor> (- 1022);
               u = 2 powi (e - 52);
               y = of_int (round_half_even (x / u)) * u
           in if 2 ^ 1024 \<le> \<bar>y\<bar> then Infinite (0 < x) else Finite y)"

fun f_add :: "float64 \<Rightarrow> float64 \<Rightarrow> float64" where
  "f_add NaN _ = NaN"
| "f_add _ NaN = NaN"
| "f_add (Finite a) (Finite b) = round64 (a + b)"
| "f_add (Infinite s) (Finite b) = Infinite s"
| "f_add (Finite a) (Infinite t) = Infinite t"
| "f_add (Infinite s) (Infinite t) = (if s = t then Infinite s else NaN)"

fun f_mul :: "float64 \<Rightarrow> float64 \<Rightarrow> float64" where
  "f_mul NaN _ = NaN"
| "f_mul _ NaN = NaN"
| "f_mul (Finite a) (Finite b) = round64 (a * b)"
| "f_mul (Infinite s) (Finite b) = (if b = 0 then NaN else Infinite (s = (0 < b)))"
| "f_mul (Finite a) (Infinite t) = (if a = 0 then NaN else Infinite (t = (0 < a)))"
| "f_mul (Infinite s) (Infinite t) = Infinite (s = t)"

fun f_div :: "float64 \<Rightarrow> float64 \<Rightarrow> float64" where
  "f_div NaN _ = NaN"
| "f_div _ NaN = NaN"
| "f_div (Finite a) (Finite b) =
     (if b = 0 then (if a = 0 then NaN else Infinite (0 < a)) else round64 (a / b))"
| "f_div (Infinite s) (Finite b) = Infinite (s = (0 \<le> b))"
| "f_div (Finite a) (Infinite t) = Finite 0"
| "f_div (Infinite s) (Infinite t) = NaN"

fun f_le :: "float64 \<Rightarrow> float64 \<Rightarrow> bool" where
  "f_le NaN _ = False"
| "f_le _ NaN = False"
| "f_le (Finite a) (Finite b) = (a \<le> b)"
| "f_le (Infinite s) (Finite b) = (if s then False else True)"
| "f_le (Finite a) (Infinite t) = t"
| "f_le (Infinite s) (Infinite t) = (if s then t else True)"

text \<open>The conversion of an integer count to float64.\<close>

definition f_of_nat :: "nat \<Rightarrow> float64" where
  "f_of_nat n = round64 (real n)"

fun is_finite :: "float64 \<Rightarrow> bool" where
  "is_finite (Finite a) = True"
| "is_finite (Infinite s) = False"
| "is_finite NaN = False"

text \<open>\<open>v\<close> lies between \<open>a\<close> and \<open>b\<close>, in either order (false as soon as one is NaN).\<close>

definition lies_between :: "float64 \<Rightarrow> float64 \<Rightarrow> float64 \<Rightarrow> bool" where
  "lies_between v a b = ((f_le a v \<and> f_le v b) \<or> (f_le b v \<and> f_le v a))"

subsection \<open>The aggregation of the two per-arm impact tables\<close>

datatype partition = Train | Test

text \<open>A value for each of the index keys \<^verbatim>\<open>'train'\<close> and \<^verbatim>\<open>'test'\<close>.\<close>

record 'a train_test =
  train :: 'a
  test :: 'a

definition part :: "partition \<Rightarrow> 'a train_test \<Rightarrow> 'a" where
  "part p t = (case p of Train \<Rightarrow> train t | Test \<Rightarrow> test t)"

text \<open>
  Modelled from the spec: the table that \<open>simulate_recommendation\<close> returns for one arm
  (the method is in \<^verbatim>\<open>nodes/model_for_each\<close>, which is missing). It has one row per
  partition and the four columns that \<open>estimate_recommendation_impact\<close> reads:
  \<^verbatim>\<open>'# samples chosen without uplift model'\<close>,
  \<^verbatim>\<open>'observed conversion rate without uplift model'\<close>,
  \<^verbatim>\<open>'# samples recommended by uplift model'\<close> and
  \<^verbatim>\<open>'predicted conversion rate using uplift model'\<close>. The counts are numbers of rows;
  a rate over no row is NaN.
\<close>

record impact_row =
  samples_chosen :: nat
  observed_rate :: float64
  samples_recommended :: nat
  predicted_rate :: float64

type_synonym impact_df = "impact_row train_test"

text \<open>
  A row of \<open>estimated_effect_df\<close>, with the columns \<^verbatim>\<open>'# samples'\<close>,
  \<^verbatim>\<open>'observed conversion rate without uplift model'\<close>,
  \<^verbatim>\<open>'predicted conversion rate using uplift model'\<close> and
  \<^verbatim>\<open>'predicted improvement rate'\<close>.
\<close>

record effect_row =
  n_samples :: nat
  observed_conversion_rate :: float64
  predicted_conversion_rate :: float64
  predicted_improvement_rate :: float64

type_synonym effect_df = "effect_row train_test"

text \<open>
  Lines 310 to 338 of \<open>estimate_recommendation_impact\<close>, for one index key. The code
  computes column by column on the two tables; both have the keys train and test, so that
  the columns are combined key by key.
\<close>

definition estimated_effect_row :: "impact_row \<Rightarrow> impact_row \<Rightarrow> effect_row" where
  "estimated_effect_row treated untreated =
     (let observed =
            f_div (f_add (f_mul (f_of_nat (samples_chosen treated)) (observed_rate treated))
                         (f_mul (f_of_nat (samples_chosen untreated)) (observed_rate untreated)))
                  (f_of_nat (samples_chosen treated + samples_chosen untreated));
          predicted =
            f_div (f_add (f_mul (f_of_nat (samples_recommended treated)) (predicted_rate treated))
                         (f_mul (f_of_nat (samples_recommended untreated)) (predicted_rate untreated)))
                  (f_of_nat (samples_recommended treated + samples_recommended untreated))
      in \<lparr> n_samples = samples_chosen treated + samples_chosen untreated,
           observed_conversion_rate = observed,
           predicted_conversion_rate = predicted,
           predicted_improvement_rate = f_div predicted observed \<rparr>)"

definition estimated_effect :: "impact_df \<Rightarrow> impact_df \<Rightarrow> effect_df" where
  "estimated_effect treated_t untreated_t =
     \<lparr> train = estimated_effect_row (train treated_t) (train untreated_t),
       test = estimated_effect_row (test treated_t) (test untreated_t) \<rparr>"

subsection \<open>Tables\<close>

text \<open>
  A row label is a position or a key, or a label below a partition key (a label of the
  two-level index that \<open>concat_train_test_df\<close> builds). A DataFrame is its index and its
  columns in order, each with one cell per row. A Series is a list of labelled values.
\<close>

datatype label = Row nat | Part partition label

record DataFrame =
  index :: "label list"
  data :: "(string \<times> real list) list"

type_synonym Series = "(label \<times> real) list"

text \<open>
  The exceptions. \<open>NotModelled\<close> marks the two places where pandas would align two
  different indexes and fill the gaps with NaN, which a table of finite cells cannot hold;
  the tables of a session never reach them.
\<close>

datatype error =
    AssertionError
  | KeyError
  | ValueError
  | SchemaMismatch
  | CollaboratorError string
  | NotModelled

definition columns :: "DataFrame \<Rightarrow> string list" where
  "columns d = map fst (data d)"

text \<open>\<^verbatim>\<open>df[c]\<close>: the column as a Series on the index of the table.\<close>

definition getitem :: "string \<Rightarrow> DataFrame \<Rightarrow> error + Series" where
  "getitem c d =
     (case map_of (data d) c of None \<Rightarrow> Inl KeyError | Some vs \<Rightarrow> Inr (zip (index d) vs))"

text \<open>
  \<^verbatim>\<open>df.loc[:, c] = values\<close> for an array: the cells are written by position, into the
  column \<open>c\<close> where it is, into a new last column otherwise.
\<close>

definition loc_set :: "string \<Rightarrow> real list \<Rightarrow> DataFrame \<Rightarrow> error + DataFrame" where
  "loc_set c vs d =
     (if length vs = length (index d) then Inr (d\<lparr>data := AList.update c vs (data d)\<rparr>)
      else Inl ValueError)"

text \<open>\<^verbatim>\<open>df.loc[:, c] = series\<close>: the cells are written by label.\<close>

definition loc_set_series :: "string \<Rightarrow> Series \<Rightarrow> DataFrame \<Rightarrow> error + DataFrame" where
  "loc_set_series c s d =
     (if map fst s = index d then Inr (d\<lparr>data := AList.update c (map snd s) (data d)\<rparr>)
      else Inl NotModelled)"


text \<open>
  \<^verbatim>\<open>xs(key)\<close>: the rows below the key, without the key level; KeyError when there is
  none.
\<close>

fun in_partition :: "partition \<Rightarrow> label \<Rightarrow> bool" where
  "in_partition p (Part q l) = (q = p)"
| "in_partition p (Row i) = False"

fun drop_level :: "label \<Rightarrow> label" where
  "drop_level (Part q l) = l"
| "drop_level (Row i) = Row i"

definition xs_series :: "partition \<Rightarrow> Series \<Rightarrow> error + Series" where
  "xs_series p s =
     (let rows = filter (\<lambda>(l, v). in_partition p l) s
      in if rows = [] then Inl KeyError else Inr (map (\<lambda>(l, v). (drop_level l, v)) rows))"

definition select_rows :: "partition \<Rightarrow> label list \<Rightarrow> real list \<Rightarrow> real list" where
  "select_rows p ls vs = map snd (filter (\<lambda>(l, v). in_partition p l) (zip ls vs))"

definition xs_df :: "partition \<Rightarrow> DataFrame \<Rightarrow> error + DataFrame" where
  "xs_df p d =
     (if filter (in_partition p) (index d) = [] then Inl KeyError
      else Inr \<lparr> index = map drop_level (filter (in_partition p) (index d)),
                 data = map (\<lambda>(c, vs). (c, select_rows p (index d) vs)) (data d) \<rparr>)"

text \<open>\<^verbatim>\<open>reset_index(drop=True)\<close> and \<^verbatim>\<open>copy()\<close>; both return a new object.\<close>

definition reset_index :: "DataFrame \<Rightarrow> DataFrame" where
  "reset_index d = d\<lparr>index := map Row [0..<length (index d)]\<rparr>"

definition copy :: "DataFrame \<Rightarrow> DataFrame" where
  "copy d = d"

text \<open>
  Modelled from the spec: \<open>concat_train_test_df\<close> of \<^verbatim>\<open>nodes/utils\<close> (missing), the
  Dataset Partitioner's \<open>combine\<close>: it attaches a partition tag to each row and
  concatenates, the train rows first; tables whose column sets differ fail with
  SchemaMismatch. The columns keep the order of the train table.
\<close>

definition concat_train_test_df :: "DataFrame \<Rightarrow> DataFrame \<Rightarrow> error + DataFrame" where
  "concat_train_test_df train_t test_t =
     (if set (columns train_t) = set (columns test_t)
      then Inr \<lparr> index = map (Part Train) (index train_t) @ map (Part Test) (index test_t),
                 data = map (\<lambda>(c, vs). (c, vs @ (case map_of (data test_t) c of
                                                     Some ws \<Rightarrow> ws | None \<Rightarrow> [])))
                            (data train_t) \<rparr>
      else Inl SchemaMismatch)"

text \<open>
  Modelled from the spec: \<open>concat_train_test\<close> of \<^verbatim>\<open>nodes/utils\<close> (missing), the same
  combination for two arrays: a Series of the train values and then the test values, each
  labelled with its partition and its position.
\<close>

definition concat_train_test :: "real list \<Rightarrow> real list \<Rightarrow> Series" where
  "concat_train_test train_v test_v =
     zip (map (\<lambda>i. Part Train (Row i)) [0..<length train_v]) train_v
     @ zip (map (\<lambda>i. Part Test (Row i)) [0..<length test_v]) test_v"

text \<open>
  Modelled from the spec: \<open>get_cols_features\<close> of \<^verbatim>\<open>nodes/utils\<close> (missing): all
  columns minus the reserved names.
\<close>

definition get_cols_features :: "DataFrame \<Rightarrow> string list \<Rightarrow> string list" where
  "get_cols_features d non_feature_cols = filter (\<lambda>c. c \<notin> set non_feature_cols) (columns d)"

subsection \<open>Configuration\<close>

text \<open>
  The options of the constructor with their defaults (lines 121 to 169). The two
  hyperparameter grids are handed to the estimators and never read by the class; their
  values are kept as the text of the Python literals.
\<close>

record Args =
  cols_features :: "string list option"
  col_treatment :: string
  col_outcome :: string
  col_propensity :: string
  col_cate :: string
  col_recommendation :: string
  min_propensity :: real
  max_propensity :: real
  random_state :: int
  verbose :: int
  uplift_model_params :: "(string \<times> string list) list"
  enable_ipw :: bool
  propensity_model_params :: "(string \<times> string list) list"
  cv :: int

definition default_args :: Args where
  "default_args =
     \<lparr> cols_features = None,
       col_treatment = ''Treatment'',
       col_outcome = ''Outcome'',
       col_propensity = ''Propensity'',
       col_cate = ''CATE'',
       col_recommendation = ''Recommendation'',
       min_propensity = 1 / 100,
       max_propensity = 99 / 100,
       random_state = 0,
       verbose = 2,
       uplift_model_params =
         [(''max_depth'', [''3'']), (''learning_rate'', [''0.1'']), (''n_estimators'', [''100'']),
          (''silent'', [''True'']), (''objective'', [''binary:logistic'']),
          (''booster'', [''gbtree'']), (''n_jobs'', [''-1'']), (''nthread'', [''None'']),
          (''gamma'', [''0'']), (''min_child_weight'', [''1'']), (''max_delta_step'', [''0'']),
          (''subsample'', [''1'']), (''colsample_bytree'', [''1'']),
          (''colsample_bylevel'', [''1'']), (''reg_alpha'', [''0'']), (''reg_lambda'', [''1'']),
          (''scale_pos_weight'', [''1'']), (''base_score'', [''0.5'']), (''missing'', [''None''])],
       enable_ipw = True,
       propensity_model_params =
         [(''C'', [''0.1'', ''1'', ''10'']), (''class_weight'', [''None'']), (''dual'', [''False'']),
          (''fit_intercept'', [''True'']), (''intercept_scaling'', [''1'']),
          (''max_iter'', [''100'']), (''multi_class'', [''ovr'']), (''n_jobs'', [''1'']),
          (''penalty'', [''l1'', ''l2'']), (''solver'', [''liblinear'']), (''tol'', [''0.0001'']),
          (''warm_start'', [''False''])],
       cv = 3 \<rparr>"

text \<open>
  Python's \<^verbatim>\<open>x or y\<close>: \<open>y\<close> when \<open>x\<close> is None, zero or empty, \<open>x\<close> otherwise.
\<close>

definition py_or :: "real option \<Rightarrow> real \<Rightarrow> real" where
  "py_or v d = (case v of None \<Rightarrow> d | Some x \<Rightarrow> if x = 0 then d else x)"

definition py_or_int :: "int option \<Rightarrow> int \<Rightarrow> int" where
  "py_or_int v d = (case v of None \<Rightarrow> d | Some x \<Rightarrow> if x = 0 then d else x)"

definition py_or_list :: "string list option \<Rightarrow> string list \<Rightarrow> string list" where
  "py_or_list v d = (case v of None \<Rightarrow> d | Some xs \<Rightarrow> if xs = [] then d else xs)"

subsection \<open>Objects, effects and collaborators\<close>

text \<open>
  The store maps an address to the DataFrame it holds; the addresses below \<open>next_addr\<close>
  are allocated. An argument of the constructor is a reference to a DataFrame or an object
  of another type. The events are the calls of the estimators and the lines printed.
\<close>

type_synonym addr = nat

datatype py_value = DataFrameRef addr | OtherObject

datatype arm = Treated | Untreated

datatype event =
    Call_estimate_propensity
  | Call_fit arm
  | Call_predict_proba arm
  | Call_simulate_recommendation arm
  | Call_treatment_fractions
  | Print_fraction string real
  | Display string impact_df

record world =
  objs :: "addr \<Rightarrow> DataFrame"
  next_addr :: addr
  events :: "event list"

definition alloc :: "DataFrame \<Rightarrow> world \<Rightarrow> world \<times> addr" where
  "alloc d w =
     (w\<lparr>objs := (objs w)(next_addr w := d), next_addr := Suc (next_addr w)\<rparr>, next_addr w)"

definition store :: "addr \<Rightarrow> DataFrame \<Rightarrow> world \<Rightarrow> world" where
  "store a d w = w\<lparr>objs := (objs w)(a := d)\<rparr>"

definition emit :: "event \<Rightarrow> world \<Rightarrow> world" where
  "emit e w = w\<lparr>events := events w @ [e]\<rparr>"

text \<open>
  The classes \<open>ModelForTreated\<close> and \<open>ModelForUntreated\<close> of
  \<^verbatim>\<open>nodes/model_for_each\<close> are missing: an object of either is the record of its three
  methods, with \<open>'m\<close> the type of a fitted model and \<open>'s\<close> the type of a score table. The
  record \<open>nodes\<close> collects what the class imports from the missing modules, the function
  \<open>treatment_fractions_\<close> under the name \<open>treatment_fractions_fun\<close>.
\<close>

record ('m, 's) ModelForTreatedOrUntreated =
  fit :: "Args \<Rightarrow> DataFrame \<Rightarrow> error + ('m \<times> 's)"
  predict_proba :: "Args \<Rightarrow> DataFrame \<Rightarrow> 'm \<Rightarrow> error + Series"
  simulate_recommendation :: "Args \<Rightarrow> DataFrame \<Rightarrow> 'm \<Rightarrow> 's \<Rightarrow> error + impact_df"

record ('m, 's) nodes =
  estimate_propensity :: "DataFrame \<Rightarrow> DataFrame \<Rightarrow> Args \<Rightarrow> error + (DataFrame \<times> DataFrame)"
  treatment_fractions_fun :: "DataFrame \<Rightarrow> string \<Rightarrow> error + real train_test"
  ModelForTreated :: "('m, 's) ModelForTreatedOrUntreated"
  ModelForUntreated :: "('m, 's) ModelForTreatedOrUntreated"

text \<open>The attributes of a \<open>CausalLift\<close> object; \<open>None\<close> for one that is not set yet.\<close>

record ('m, 's) CausalLift =
  df :: addr
  train_df :: DataFrame
  test_df :: DataFrame
  args :: Args
  model_for_treated :: "('m, 's) ModelForTreatedOrUntreated"
  model_for_untreated :: "('m, 's) ModelForTreatedOrUntreated"
  model_treated :: 'm
  model_untreated :: 'm
  score_original_treatment_treated_df :: 's
  score_original_treatment_untreated_df :: 's
  treatment_fractions :: "real train_test"
  treatment_fraction_train :: real
  treatment_fraction_test :: real
  cate_estimated :: "Series option"
  treated_df :: "impact_df option"
  untreated_df :: "impact_df option"
  estimated_effect_df :: "effect_df option"

subsection \<open>The constructor\<close>

text \<open>
  The constructor is embedded in three parts that follow one another. \<open>init_models\<close> is
  lines 193 to 216: the combined table becomes the object \<open>self.df\<close>,
  \<open>_separate_train_test\<close> splits it, both models are fitted and the treatment fractions
  are computed from the table. An exception leaves no session behind.
\<close>

definition init_models ::
  "('m, 's) nodes \<Rightarrow> world \<Rightarrow> Args \<Rightarrow> addr \<Rightarrow> addr \<Rightarrow> world \<times> (error + ('m, 's) CausalLift)" where
  "init_models N w a train_a test_a =
     (case concat_train_test_df (objs w train_a) (objs w test_a) of
        Inl e \<Rightarrow> (w, Inl e)
      | Inr d \<Rightarrow>
          (let (w1, df_a) = alloc d w in
           case xs_df Train (objs w1 df_a) of
             Inl e \<Rightarrow> (w1, Inl e)
           | Inr tr \<Rightarrow>
          (case xs_df Test (objs w1 df_a) of
             Inl e \<Rightarrow> (w1, Inl e)
           | Inr te \<Rightarrow>
          (let w2 = emit (Call_fit Treated) w1 in
           case fit (ModelForTreated N) a (objs w2 df_a) of
             Inl e \<Rightarrow> (w2, Inl e)
           | Inr (m_t, s_t) \<Rightarrow>
          (let w3 = emit (Call_fit Untreated) w2 in
           case fit (ModelForUntreated N) a (objs w3 df_a) of
             Inl e \<Rightarrow> (w3, Inl e)
           | Inr (m_u, s_u) \<Rightarrow>
          (let w4 = emit Call_treatment_fractions w3 in
           case treatment_fractions_fun N (objs w4 df_a) (col_treatment a) of
             Inl e \<Rightarrow> (w4, Inl e)
           | Inr tf \<Rightarrow>
          (let w5 = (if 3 \<le> verbose a
                     then emit (Print_fraction ''### Treatment fraction in test dataset: '' (test tf))
                            (emit (Print_fraction ''### Treatment fraction in train dataset: '' (train tf)) w4)
                     else w4)
           in (w5, Inr \<lparr> df = df_a, train_df = tr, test_df = te, args = a,
                         model_for_treated = ModelForTreated N,
                         model_for_untreated = ModelForUntreated N,
                         model_treated = m_t, model_untreated = m_u,
                         score_original_treatment_treated_df = s_t,
                         score_original_treatment_untreated_df = s_u,
                         treatment_fractions = tf,
                         treatment_fraction_train = train tf,
                         treatment_fraction_test = test tf,
                         cate_estimated = None, treated_df = None, untreated_df = None,
                         estimated_effect_df = None \<rparr>))))))))"

text \<open>
  Lines 190 and 191:
  \<^verbatim>\<open>
  if args.enable_ipw and (args.col_propensity not in train_df.columns):
      train_df, test_df = estimate_propensity(train_df, test_df, args)
  \<close>
\<close>

definition init_propensity ::
  "('m, 's) nodes \<Rightarrow> world \<Rightarrow> Args \<Rightarrow> addr \<Rightarrow> addr \<Rightarrow> world \<times> (error + ('m, 's) CausalLift)" where
  "init_propensity N w a train_a test_a =
     (if enable_ipw a \<and> col_propensity a \<notin> set (columns (objs w train_a)) then
        (let w1 = emit Call_estimate_propensity w in
         case estimate_propensity N (objs w1 train_a) (objs w1 test_a) a of
           Inl e \<Rightarrow> (w1, Inl e)
         | Inr (tr, te) \<Rightarrow>
             (let (w2, train_b) = alloc tr w1;
                  (w3, test_b) = alloc te w2
              in init_models N w3 a train_b test_b))
      else init_models N w a train_a test_a)"

text \<open>
  Lines 121 to 188: the options are the defaults updated by the keyword arguments (a
  function on the record of options), then
  \<^verbatim>\<open>
  assert isinstance(train_df, pd.DataFrame)
  assert isinstance(test_df, pd.DataFrame)
  assert set(train_df.columns) == set(test_df.columns)
  ...
  train_df = train_df.reset_index(drop=True).copy()
  test_df = test_df.reset_index(drop=True).copy()
  \<close>
\<close>

definition init ::
  "('m, 's) nodes \<Rightarrow> world \<Rightarrow> py_value \<Rightarrow> py_value \<Rightarrow> (Args \<Rightarrow> Args)
     \<Rightarrow> world \<times> (error + ('m, 's) CausalLift)" where
  "init N w train_arg test_arg kwargs =
     (let a0 = kwargs default_args in
      case train_arg of
        OtherObject \<Rightarrow> (w, Inl AssertionError)
      | DataFrameRef train_a \<Rightarrow>
     (case test_arg of
        OtherObject \<Rightarrow> (w, Inl AssertionError)
      | DataFrameRef test_a \<Rightarrow>
          if set (columns (objs w train_a)) = set (columns (objs w test_a)) then
            (let non_feature_cols = [col_treatment a0, col_outcome a0, col_propensity a0,
                                     col_cate a0, col_recommendation a0];
                 a1 = a0\<lparr>cols_features :=
                           Some (py_or_list (cols_features a0)
                                   (get_cols_features (objs w train_a) non_feature_cols))\<rparr>;
                 (w1, train_c) = alloc (copy (reset_index (objs w train_a))) w;
                 (w2, test_c) = alloc (copy (reset_index (objs w1 test_a))) w1
             in init_propensity N w2 a1 train_c test_c)
          else (w, Inl AssertionError)))"

subsection \<open>The methods\<close>

text \<open>
  \<^verbatim>\<open>
  def _separate_train_test(self):
      self.train_df = self.df.xs('train')
      self.test_df = self.df.xs('test')
      return self.train_df, self.test_df
  \<close>
\<close>

definition separate_train_test ::
  "world \<Rightarrow> ('m, 's) CausalLift \<Rightarrow> ('m, 's) CausalLift \<times> (error + DataFrame \<times> DataFrame)" where
  "separate_train_test w self =
     (case xs_df Train (objs w (df self)) of
        Inl e \<Rightarrow> (self, Inl e)
      | Inr tr \<Rightarrow>
          (let self1 = self\<lparr>train_df := tr\<rparr> in
           case xs_df Test (objs w (df self1)) of
             Inl e \<Rightarrow> (self1, Inl e)
           | Inr te \<Rightarrow>
               (let self2 = self1\<lparr>test_df := te\<rparr>
                in (self2, Inr (train_df self2, test_df self2)))))"


text \<open>
  \<^verbatim>\<open>
  def recommendation_by_cate(df, args, treatment_fractions):
      cate_series = df[args.col_cate]
      ...
      recommendation_train = recommendation(cate_series.xs('train'), treatment_fractions.train)
      recommendation_test = recommendation(cate_series.xs('test'), treatment_fractions.test)
      df.loc[:, args.col_recommendation] =
          concat_train_test(recommendation_train, recommendation_test)
      return df
  \<close>
  The function writes to the table it is given as its last step only; the caller stores the
  result at the address of \<open>self.df\<close>.
\<close>

definition recommendation_by_cate :: "DataFrame \<Rightarrow> Args \<Rightarrow> real train_test \<Rightarrow> error + DataFrame" where
  "recommendation_by_cate d a fractions =
     (case getitem (col_cate a) d of
        Inl e \<Rightarrow> Inl e
      | Inr cate_series \<Rightarrow>
     (case xs_series Train cate_series of
        Inl e \<Rightarrow> Inl e
      | Inr cate_train \<Rightarrow>
     (let recommendation_train = recommendation (map snd cate_train) (train fractions) in
      case xs_series Test cate_series of
        Inl e \<Rightarrow> Inl e
      | Inr cate_test \<Rightarrow>
     (let recommendation_test = recommendation (map snd cate_test) (test fractions)
      in loc_set_series (col_recommendation a)
           (concat_train_test recommendation_train recommendation_test) d))))"

text \<open>
  \<open>estimate_recommendation_impact\<close>, lines 265 to 345:
  \<^verbatim>\<open>
  if cate_estimated is not None:
      self.cate_estimated = cate_estimated
      self.df.loc[:, self.args.col_cate] = cate_estimated.values
  self.treatment_fractions.train = treatment_fraction_train or self.treatment_fractions.train
  self.treatment_fractions.test = treatment_fraction_test or self.treatment_fractions.test
  verbose = verbose or self.args.verbose
  \<close>
  then the recommendation, the two simulations, the display and the aggregation.
\<close>

definition estimate_recommendation_impact ::
  "world \<Rightarrow> ('m, 's) CausalLift \<Rightarrow> Series option \<Rightarrow> real option \<Rightarrow> real option \<Rightarrow> int option
     \<Rightarrow> (world \<times> ('m, 's) CausalLift) \<times> (error + effect_df)" where
  "estimate_recommendation_impact w self cate_arg fraction_train_arg fraction_test_arg verbose_arg =
     (case (case cate_arg of
              None \<Rightarrow> ((w, self), Inr ())
            | Some c \<Rightarrow>
                (let self1 = self\<lparr>cate_estimated := Some c\<rparr> in
                 case loc_set (col_cate (args self1)) (map snd c) (objs w (df self1)) of
                   Inl e \<Rightarrow> ((w, self1), Inl e)
                 | Inr d \<Rightarrow> ((store (df self1) d w, self1), Inr ())))
      of
        ((w1, self1), Inl e) \<Rightarrow> ((w1, self1), Inl e)
      | ((w1, self1), Inr u) \<Rightarrow>
     (let self2 = self1\<lparr>treatment_fractions :=
                    \<lparr> train = py_or fraction_train_arg (train (treatment_fractions self1)),
                      test = py_or fraction_test_arg (test (treatment_fractions self1)) \<rparr>\<rparr>;
          verbose_l = py_or_int verbose_arg (verbose (args self2))
      in
      case recommendation_by_cate (objs w1 (df self2)) (args self2) (treatment_fractions self2) of
        Inl e \<Rightarrow> ((w1, self2), Inl e)
      | Inr d \<Rightarrow>
     (let w2 = emit (Call_simulate_recommendation Treated) (store (df self2) d w1) in
      case simulate_recommendation (model_for_treated self2) (args self2) (objs w2 (df self2))
             (model_treated self2) (score_original_treatment_treated_df self2) of
        Inl e \<Rightarrow> ((w2, self2), Inl e)
      | Inr treated \<Rightarrow>
     (let w3 = emit (Call_simulate_recommendation Untreated) w2 in
      case simulate_recommendation (model_for_untreated self2) (args self2) (objs w3 (df self2))
             (model_untreated self2) (score_original_treatment_untreated_df self2) of
        Inl e \<Rightarrow> ((w3, self2), Inl e)
      | Inr untreated \<Rightarrow>
     (let self3 = self2\<lparr>treated_df := Some treated, untreated_df := Some untreated\<rparr>;
          w4 = (if 3 \<le> verbose_l
                then emit (Display ''### Untreated samples without and with uplift model:'' untreated)
                       (emit (Display ''### Treated samples without and with uplift model:'' treated) w3)
                else w3);
          effect = estimated_effect treated untreated;
          self4 = self3\<lparr>estimated_effect_df := Some effect\<rparr>
      in ((w4, self4), Inr effect))))))"

subsection \<open>A session: the constructor and any sequence of method calls\<close>




subsection \<open>A concrete session\<close>

text \<open>
  Collaborators and tables on which the theorems below are instantiated: two models that
  predict a constant probability (0.75 and 0.25) and count the rows of their arm, a propensity
  estimator that sets every propensity to one half, and a caller's store with a train table
  of four rows, a test table of two rows and a third table with another column.
\<close>

definition example_row :: "real \<Rightarrow> real \<Rightarrow> real list \<Rightarrow> real list \<Rightarrow> impact_row" where
  "example_row arm_value p ts rs =
     \<lparr> samples_chosen = length (filter (\<lambda>t. t = arm_value) ts),
       observed_rate = Finite (1 / 2),
       samples_recommended = length (filter (\<lambda>r. r = arm_value) rs),
       predicted_rate = Finite p \<rparr>"

definition example_model_for :: "real \<Rightarrow> real \<Rightarrow> (unit, unit) ModelForTreatedOrUntreated" where
  "example_model_for arm_value p =
     \<lparr> fit = (\<lambda>a d. Inr ((), ())),
       predict_proba = (\<lambda>a d m. Inr (map (\<lambda>l. (l, p)) (index d))),
       simulate_recommendation = (\<lambda>a d m s.
         case map_of (data d) (col_treatment a) of
           None \<Rightarrow> Inl KeyError
         | Some ts \<Rightarrow>
        (case map_of (data d) (col_recommendation a) of
           None \<Rightarrow> Inl KeyError
         | Some rs \<Rightarrow>
             Inr \<lparr> train = example_row arm_value p (select_rows Train (index d) ts)
                                 (select_rows Train (index d) rs),
                   test = example_row arm_value p (select_rows Test (index d) ts)
                                (select_rows Test (index d) rs) \<rparr>)) \<rparr>"

definition example_nodes :: "(unit, unit) nodes" where
  "example_nodes =
     \<lparr> estimate_propensity = (\<lambda>tr te a.
         Inr (tr\<lparr>data := data tr @ [(col_propensity a, map (\<lambda>l. 1 / 2) (index tr))]\<rparr>,
              te\<lparr>data := data te @ [(col_propensity a, map (\<lambda>l. 1 / 2) (index te))]\<rparr>)),
       treatment_fractions_fun = (\<lambda>d c. Inr \<lparr> train = 1 / 2, test = 1 / 2 \<rparr>),
       ModelForTreated = example_model_for 1 (3 / 4),
       ModelForUntreated = example_model_for 0 (1 / 4) \<rparr>"

definition example_train :: DataFrame where
  "example_train =
     \<lparr> index = [Row 10, Row 11, Row 12, Row 13],
       data = [(''x'', [5, 6, 7, 8]), (''Treatment'', [1, 0, 1, 0]), (''Outcome'', [1, 0, 0, 1])] \<rparr>"

definition example_test :: DataFrame where
  "example_test =
     \<lparr> index = [Row 7, Row 3],
       data = [(''Treatment'', [1, 0]), (''x'', [9, 4]), (''Outcome'', [0, 1])] \<rparr>"

definition example_other :: DataFrame where
  "example_other = \<lparr> index = [Row 0], data = [(''y'', [1])] \<rparr>"

definition example_world :: world where
  "example_world =
     \<lparr> objs = (\<lambda>a. if a = 0 then example_train else if a = 1 then example_test else example_other),
       next_addr = 3, events = [] \<rparr>"

definition example_df :: DataFrame where
  "example_df =
     \<lparr> index = [Part Train (Row 0), Part Train (Row 1), Part Train (Row 2), Part Train (Row 3),
                Part Test (Row 0), Part Test (Row 1)],
       data = [(''x'', [5, 6, 7, 8, 9, 4]), (''Treatment'', [1, 0, 1, 0, 1, 0]),
               (''Outcome'', [1, 0, 0, 1, 0, 1]), (''Propensity'', [1/2, 1/2, 1/2, 1/2, 1/2, 1/2])] \<rparr>"

text \<open>Per-arm impact tables: two ordinary ones and one whose arm has no row in train.\<close>

definition example_treated_impact :: impact_df where
  "example_treated_impact =
     \<lparr> train = \<lparr> samples_chosen = 2, observed_rate = Finite (1 / 2),
                 samples_recommended = 1, predicted_rate = Finite (3 / 4) \<rparr>,
       test = \<lparr> samples_chosen = 1, observed_rate = Finite 0,
                samples_recommended = 1, predicted_rate = Finite (3 / 4) \<rparr> \<rparr>"

definition example_untreated_impact :: impact_df where
  "example_untreated_impact =
     \<lparr> train = \<lparr> samples_chosen = 2, observed_rate = Finite (1 / 4),
                 samples_recommended = 3, predicted_rate = Finite (1 / 4) \<rparr>,
       test = \<lparr> samples_chosen = 1, observed_rate = Finite 0,
                samples_recommended = 1, predicted_rate = Finite (1 / 4) \<rparr> \<rparr>"

definition example_empty_arm_impact :: impact_df where
  "example_empty_arm_impact =
     \<lparr> train = \<lparr> samples_chosen = 0, observed_rate = NaN,
                 samples_recommended = 3, predicted_rate = Finite (1 / 4) \<rparr>,
       test = \<lparr> samples_chosen = 1, observed_rate = Finite 0,
                samples_recommended = 1, predicted_rate = Finite (1 / 4) \<rparr> \<rparr>"

text \<open>
  Two per-arm impact tables with the same observed rate, the float64 nearest to 15/22
  (0.6818181818181818), over 22 and 44 samples.
\<close>

definition example_rounding_treated_impact :: impact_df where
  "example_rounding_treated_impact =
     \<lparr> train = \<lparr> samples_chosen = 22, observed_rate = Finite (6141272219141585 / 2 ^ 53),
                 samples_recommended = 22, predicted_rate = Finite (3 / 4) \<rparr>,
       test = \<lparr> samples_chosen = 22, observed_rate = Finite (6141272219141585 / 2 ^ 53),
                samples_recommended = 22, predicted_rate = Finite (3 / 4) \<rparr> \<rparr>"

definition example_rounding_untreated_impact :: impact_df where
  "example_rounding_untreated_impact =
     \<lparr> train = \<lparr> samples_chosen = 44, observed_rate = Finite (6141272219141585 / 2 ^ 53),
                 samples_recommended = 44, predicted_rate = Finite (1 / 4) \<rparr>,
       test = \<lparr> samples_chosen = 44, observed_rate = Finite (6141272219141585 / 2 ^ 53),
                samples_recommended = 44, predicted_rate = Finite (1 / 4) \<rparr> \<rparr>"

text \<open>The session that the constructor builds from this store, and the store it leaves.\<close>

definition example_world1 :: world where
  "example_world1 =
     \<lparr> objs = (\<lambda>a. if a = 7 then example_df else objs example_world a),
       next_addr = 8,
       events = [Call_estimate_propensity, Call_fit Treated, Call_fit Untreated,
                 Call_treatment_fractions] \<rparr>"

definition example_self :: "(unit, unit) CausalLift" where
  "example_self =
     \<lparr> df = 7,
       train_df = \<lparr> index = [Row 0, Row 1, Row 2, Row 3],
                    data = [(''x'', [5, 6, 7, 8]), (''Treatment'', [1, 0, 1, 0]),
                            (''Outcome'', [1, 0, 0, 1]),
                            (''Propensity'', [1 / 2, 1 / 2, 1 / 2, 1 / 2])] \<rparr>,
       test_df = \<lparr> index = [Row 0, Row 1],
                   data = [(''x'', [9, 4]), (''Treatment'', [1, 0]), (''Outcome'', [0, 1]),
                           (''Propensity'', [1 / 2, 1 / 2])] \<rparr>,
       args = default_args\<lparr>cols_features := Some [''x'']\<rparr>,
       model_for_treated = ModelForTreated example_nodes,
       model_for_untreated = ModelForUntreated example_nodes,
       model_treated = (), model_untreated = (),
       score_original_treatment_treated_df = (),
       score_original_treatment_untreated_df = (),
       treatment_fractions = \<lparr> train = 1 / 2, test = 1 / 2 \<rparr>,
       treatment_fraction_train = 1 / 2,
       treatment_fraction_test = 1 / 2,
       cate_estimated = None, treated_df = None, untreated_df = None,
       estimated_effect_df = None \<rparr>"

text \<open>A CATE series for the six rows, and the combined table with it as a column.\<close>

definition example_cate :: Series where
  "example_cate = zip (index example_df) [1 / 2, 1 / 2, 7 / 10, 1 / 10, 1 / 5, 9 / 10]"


section \<open>Properties\<close>

subsection \<open>The ranking is a bijection onto the positions 1..N\<close>

lemma length_rank_first_descending [simp]:
  "length (rank_first_descending xs) = length xs"
  by (simp add: rank_first_descending_def)







lemma count_recommended_filter:
  "count_recommended (recommendation cs f)
   = length (filter (\<lambda>r. real r / real (length cs) \<le> f) (rank_first_descending cs))"
proof -
  have "filter (\<lambda>v. v = (1::real)) (map (\<lambda>p. if p \<le> f then 1 else 0) ps)
        = map (\<lambda>p. 1) (filter (\<lambda>p. p \<le> f) ps)" for ps :: "real list"
    by (induction ps) auto
  then show ?thesis
    by (simp add: count_recommended_def recommendation_def rank_pct_def filter_map o_def)
qed

subsection \<open>Monotonicity in the treatment fraction\<close>

text \<open>
  Claim C3. For a fixed CATE series and treatment fractions \<open>f1 \<le> f2\<close>, the number of rows
  that \<open>recommendation\<close> marks with 1 under \<open>f2\<close> is at least the number it marks under \<open>f1\<close>.
\<close>

theorem recommendation_monotone:
  assumes "f1 \<le> f2"
  shows "count_recommended (recommendation cs f1) \<le> count_recommended (recommendation cs f2)"
proof -
  let ?n = "real (length cs)"
  let ?rs = "rank_first_descending cs"
  have "filter (\<lambda>r. real r / ?n \<le> f1) ?rs
        = filter (\<lambda>r. real r / ?n \<le> f1) (filter (\<lambda>r. real r / ?n \<le> f2) ?rs)"
    using assms by (auto intro!: filter_cong)
  then have "length (filter (\<lambda>r. real r / ?n \<le> f1) ?rs)
             \<le> length (filter (\<lambda>r. real r / ?n \<le> f2) ?rs)"
    by (metis length_filter_le)
  then show ?thesis by (simp add: count_recommended_filter)
qed

theorem recommendation_monotone_witness:
  "(1/4 :: real) \<le> 3/4 \<and>
   count_recommended (recommendation [0.5, 0.5, 0.7, 0.1] (1/4)) = 1 \<and>
   count_recommended (recommendation [0.5, 0.5, 0.7, 0.1] (3/4)) = 3"
  using recommendation_monotone [of "1/4" "3/4" "[0.5, 0.5, 0.7, 0.1]"]
  by (simp add: count_recommended_def recommendation_def rank_pct_def rank_first_descending_def
      comes_before_def upt_rec)

subsection \<open>The constructor's assertions\<close>

lemma objs_emit [simp]: "objs (emit e w) = objs w"
  by (simp add: emit_def)

lemma next_addr_emit [simp]: "next_addr (emit e w) = next_addr w"
  by (simp add: emit_def)

lemma events_emit [simp]: "events (emit e w) = events w @ [e]"
  by (simp add: emit_def)

lemma events_store [simp]: "events (store a d w) = events w"
  by (simp add: store_def)

lemma next_addr_store [simp]: "next_addr (store a d w) = next_addr w"
  by (simp add: store_def)

lemma objs_store: "objs (store a d w) b = (if b = a then d else objs w b)"
  by (simp add: store_def)

lemma init_rejects:
  assumes "train_arg = OtherObject \<or> test_arg = OtherObject \<or>
           (\<exists>a b. train_arg = DataFrameRef a \<and> test_arg = DataFrameRef b \<and>
                  set (columns (objs w a)) \<noteq> set (columns (objs w b)))"
  shows "init N w train_arg test_arg kwargs = (w, Inl AssertionError)"
proof (cases train_arg)
  case OtherObject
  then show ?thesis by (simp add: init_def)
next
  case (DataFrameRef a)
  show ?thesis
  proof (cases test_arg)
    case OtherObject
    with DataFrameRef show ?thesis by (simp add: init_def)
  next
    case (DataFrameRef b)
    with \<open>train_arg = DataFrameRef a\<close> assms
    have "set (columns (objs w a)) \<noteq> set (columns (objs w b))" by simp
    with DataFrameRef \<open>train_arg = DataFrameRef a\<close> show ?thesis by (simp add: init_def)
  qed
qed

text \<open>
  Claim C6. If one of the two arguments of the constructor is not a DataFrame, or the
  column sets of the two tables differ, the constructor raises AssertionError at once: the
  store and the events are as before, no estimator has been called and no table has been
  copied or changed.
\<close>

theorem init_schema_assertion:
  assumes "train_arg = OtherObject \<or> test_arg = OtherObject \<or>
           (\<exists>a b. train_arg = DataFrameRef a \<and> test_arg = DataFrameRef b \<and>
                  set (columns (objs w a)) \<noteq> set (columns (objs w b)))"
  shows "init N w train_arg test_arg kwargs = (w, Inl AssertionError)"
  using assms by (rule init_rejects)

theorem init_schema_assertion_witness:
  "set (columns (objs example_world 0)) \<noteq> set (columns (objs example_world 2)) \<and>
   init example_nodes example_world (DataFrameRef 0) (DataFrameRef 2) id
     = (example_world, Inl AssertionError)"
proof -
  have h: "set (columns (objs example_world 0)) \<noteq> set (columns (objs example_world 2))"
    by (simp add: example_world_def example_train_def example_other_def columns_def)
  then have "DataFrameRef 0 = OtherObject \<or> DataFrameRef 2 = OtherObject \<or>
           (\<exists>a b. DataFrameRef 0 = DataFrameRef a \<and> DataFrameRef 2 = DataFrameRef b \<and>
                  set (columns (objs example_world a)) \<noteq> set (columns (objs example_world b)))"
    by simp
  from init_schema_assertion [OF this] h show ?thesis by simp
qed

subsection \<open>The aggregation\<close>

lemma part_estimated_effect:
  "part p (estimated_effect treated_t untreated_t)
   = estimated_effect_row (part p treated_t) (part p untreated_t)"
  by (cases p) (simp_all add: part_def estimated_effect_def)

subsection \<open>The float64 rounding\<close>

text \<open>
  The rounding moves a number in the normal range by at most the fraction \<open>1 / 2 ^ 53\<close>
  of its magnitude, and leaves a number with at most 53 significant bits where it is.
\<close>

lemma round_half_even_of_int [simp]: "round_half_even (of_int k) = k"
  by (simp add: round_half_even_def)

lemma round_half_even_close: "\<bar>of_int (round_half_even y) - y\<bar> \<le> 1 / 2"
proof -
  have "of_int \<lfloor>y\<rfloor> \<le> y" "y < of_int \<lfloor>y\<rfloor> + 1" by linarith+
  then show ?thesis by (auto simp: round_half_even_def Let_def)
qed

lemma round64_zero [simp]: "round64 0 = Finite 0"
  by (simp add: round64_def)

lemma floor_log2_bounds:
  fixes x :: real
  assumes "0 < x"
  shows "2 powi \<lfloor>log 2 x\<rfloor> \<le> x \<and> x < 2 powi (\<lfloor>log 2 x\<rfloor> + 1)"
proof -
  have p: "(2::real) powr (of_int k + 1) = 2 powi (k + 1)" for k :: int
    using powr_real_of_int'[of 2 "k + 1"] by simp
  have "2 powr (of_int \<lfloor>log 2 x\<rfloor>) \<le> x \<and> x < 2 powr (of_int \<lfloor>log 2 x\<rfloor> + 1)"
    using floor_log_eq_powr_iff[of x 2 "\<lfloor>log 2 x\<rfloor>"] assms by simp
  then show ?thesis by (simp add: powr_real_of_int' p)
qed

lemma floor_log2_unique:
  fixes x :: real
  assumes "2 powi e \<le> x" "x < 2 powi (e + 1)"
  shows "\<lfloor>log 2 x\<rfloor> = e"
proof -
  have pos: "0 < x" using assms(1) by (smt (verit) zero_less_power_int)
  have p: "(2::real) powr (of_int e + 1) = 2 powi (e + 1)"
    using powr_real_of_int'[of 2 "e + 1"] by simp
  have "2 powr (of_int e) \<le> x \<and> x < 2 powr (of_int e + 1)"
    using assms by (simp add: powr_real_of_int' p)
  then show ?thesis using floor_log_eq_powr_iff[of x 2 e] pos by simp
qed

lemma round64_near:
  assumes lo: "2 powi (- 1022) \<le> \<bar>x\<bar>" and hi: "\<bar>x\<bar> \<le> 2 powi 1023"
  shows "\<exists>y. round64 x = Finite y \<and> \<bar>y - x\<bar> \<le> \<bar>x\<bar> / 2 ^ 53"
proof -
  let ?e = "\<lfloor>log 2 \<bar>x\<bar>\<rfloor>"
  have pos: "0 < \<bar>x\<bar>" using lo by (smt (verit) zero_less_power_int)
  then have x0: "x \<noteq> 0" by simp
  from floor_log2_bounds[OF pos]
  have b1: "2 powi ?e \<le> \<bar>x\<bar>" and b2: "\<bar>x\<bar> < 2 powi (?e + 1)" by simp_all
  have e_lo: "- 1022 \<le> ?e"
  proof (rule ccontr)
    assume "\<not> - 1022 \<le> ?e"
    then have "?e + 1 \<le> - 1022" by linarith
    then have "(2::real) powi (?e + 1) \<le> 2 powi (- 1022)"
      by (intro power_int_increasing) simp_all
    with b2 lo show False by linarith
  qed
  have e_hi: "?e \<le> 1023"
  proof (rule ccontr)
    assume "\<not> ?e \<le> 1023"
    then have "1024 \<le> ?e" by linarith
    then have "(2::real) powi 1024 \<le> 2 powi ?e"
      by (intro power_int_increasing) simp_all
    moreover have "(2::real) powi 1023 < 2 powi 1024"
      by (intro power_int_strict_increasing) simp_all
    ultimately show False using b1 hi by linarith
  qed
  let ?u = "(2::real) powi (?e - 52)"
  let ?y = "of_int (round_half_even (x / ?u)) * ?u"
  have u: "0 < ?u" by simp
  have ue: "?u = 2 powi ?e / 2 ^ 52"
    using power_int_diff[of "2::real" ?e 52] by simp
  have "\<bar>?y - x\<bar> = \<bar>of_int (round_half_even (x / ?u)) - x / ?u\<bar> * ?u"
  proof -
    have "?y - x = (of_int (round_half_even (x / ?u)) - x / ?u) * ?u"
      using u by (simp add: field_simps)
    then show ?thesis using u by (simp add: abs_mult)
  qed
  also have "\<dots> \<le> (1 / 2) * ?u"
    using round_half_even_close[of "x / ?u"] u by (intro mult_right_mono) simp_all
  also have "\<dots> = 2 powi ?e / 2 ^ 53" by (simp add: ue)
  also have "\<dots> \<le> \<bar>x\<bar> / 2 ^ 53" using b1 by (simp add: divide_right_mono)
  finally have close: "\<bar>?y - x\<bar> \<le> \<bar>x\<bar> / 2 ^ 53" .
  have "\<bar>?y\<bar> \<le> \<bar>x\<bar> + \<bar>x\<bar> / 2 ^ 53" using close by linarith
  also have "\<dots> \<le> 2 ^ 1023 + 2 ^ 1023 / 2 ^ 53"
    using hi by (intro add_mono divide_right_mono) simp_all
  also have "\<dots> < (2::real) ^ 1024" by simp
  finally have fin: "\<not> 2 ^ 1024 \<le> \<bar>?y\<bar>" by simp
  have mx: "max ?e (- 1022) = ?e" by (rule max_absorb1[OF e_lo])
  have "round64 x = (if 2 ^ 1024 \<le> \<bar>?y\<bar> then Infinite (0 < x) else Finite ?y)"
    using x0 by (simp only: round64_def Let_def mx if_False)
  then have "round64 x = Finite ?y" using fin by (simp only: if_False)
  with close show ?thesis by blast
qed

lemma round64_exact:
  assumes x: "x = of_int m * 2 powi k" and m: "\<bar>m\<bar> < 2 ^ 53"
      and k_lo: "- 1074 \<le> k" and k_hi: "k \<le> 971"
  shows "round64 x = Finite x"
proof (cases "m = 0")
  case True
  then show ?thesis by (simp add: x)
next
  case False
  let ?e = "\<lfloor>log 2 \<bar>x\<bar>\<rfloor>"
  have ax: "\<bar>x\<bar> = of_int \<bar>m\<bar> * 2 powi k" by (simp add: x abs_mult)
  have m1: "1 \<le> \<bar>m\<bar>" using False by simp
  have pos: "0 < \<bar>x\<bar>" using False by (simp add: x)
  then have x0: "x \<noteq> 0" by simp
  from floor_log2_bounds[OF pos]
  have b1: "2 powi ?e \<le> \<bar>x\<bar>" and b2: "\<bar>x\<bar> < 2 powi (?e + 1)" by simp_all
  have up: "\<bar>x\<bar> < 2 powi (k + 53)"
  proof -
    have "real_of_int \<bar>m\<bar> < real_of_int (2 ^ 53)" using m by (simp only: of_int_less_iff)
    then have "real_of_int \<bar>m\<bar> < 2 ^ 53" by simp
    then have "of_int \<bar>m\<bar> * 2 powi k < (2::real) ^ 53 * 2 powi k"
      by (intro mult_strict_right_mono) simp_all
    also have "\<dots> = 2 powi (k + 53)"
      using power_int_add[of "2::real" k 53] by simp
    finally show ?thesis by (simp only: ax)
  qed
  have dn: "2 powi k \<le> \<bar>x\<bar>"
  proof -
    have "(2::real) powi k = 1 * 2 powi k" by simp
    also have "\<dots> \<le> of_int \<bar>m\<bar> * (2::real) powi k"
      using m1 by (intro mult_right_mono) simp_all
    finally show ?thesis by (simp only: ax)
  qed
  have e_hi: "?e \<le> k + 52"
  proof (rule ccontr)
    assume "\<not> ?e \<le> k + 52"
    then have "k + 53 \<le> ?e" by linarith
    then have "(2::real) powi (k + 53) \<le> 2 powi ?e"
      by (intro power_int_increasing) simp_all
    with b1 up show False by linarith
  qed
  define q where "q = max ?e (- 1022) - 52"
  define U :: real where "U = 2 powi q"
  define P :: int where "P = 2 ^ nat (k - q)"
  have qk: "q \<le> k" using e_hi k_lo by (simp add: q_def)
  have u: "0 < U" by (simp add: U_def)
  have "(2::real) powi k = 2 powi (k - q) * U"
    using power_int_add[of "2::real" "k - q" q] by (simp add: U_def)
  also have "(2::real) powi (k - q) = of_int P"
    using qk by (simp add: power_int_def P_def)
  finally have pk: "(2::real) powi k = of_int P * U" .
  have "x / U = of_int m * (of_int P * U) / U" by (simp only: x pk mult.assoc)
  also have "\<dots> = of_int (m * P)" using u by simp
  finally have xu: "x / U = of_int (m * P)" .
  then have "round_half_even (x / U) = m * P"
    by (simp only: round_half_even_of_int)
  then have "of_int (round_half_even (x / U)) * U = of_int (m * P) * U" by simp
  also have "\<dots> = x" by (simp add: x pk)
  finally have y: "of_int (round_half_even (x / 2 powi (max ?e (- 1022) - 52)))
                     * 2 powi (max ?e (- 1022) - 52) = x"
    by (simp only: U_def q_def)
  have "\<bar>x\<bar> < 2 powi (k + 53)" by (rule up)
  also have "(2::real) powi (k + 53) \<le> 2 powi 1024"
    using k_hi by (intro power_int_increasing) simp_all
  finally have fin: "\<not> 2 ^ 1024 \<le> \<bar>x\<bar>" by simp
  have "round64 x = (if 2 ^ 1024 \<le> \<bar>x\<bar> then Infinite (0 < x) else Finite x)"
    using x0 by (simp only: round64_def Let_def y if_False)
  then show ?thesis using fin by (simp only: if_False)
qed

lemma round64_nat:
  assumes "n < 2 ^ 53"
  shows "round64 (real n) = Finite (real n)"
proof -
  have "\<bar>int n\<bar> < 2 ^ 53" using assms by (simp add: nat_less_iff flip: of_nat_power)
  from round64_exact[of "real n" "int n" 0, OF _ this] show ?thesis by simp
qed

lemma round64_dyadic:
  assumes "\<bar>m\<bar> < 2 ^ 53" "k \<le> 1074"
  shows "round64 (of_int m / 2 ^ k) = Finite (of_int m / 2 ^ k)"
proof -
  have "of_int m / (2::real) ^ k = of_int m * 2 powi (- int k)"
    by (simp add: power_int_minus field_simps)
  from round64_exact[OF this assms(1)] assms(2) show ?thesis by simp
qed

lemma f_of_nat_exact: "n < 2 ^ 53 \<Longrightarrow> f_of_nat n = Finite (real n)"
  by (simp add: f_of_nat_def round64_nat)

lemma round64_rel_nonneg:
  assumes "0 \<le> x" "x \<le> 2 ^ 1023" "x = 0 \<or> 1 / 2 ^ 1022 \<le> x"
  shows "\<exists>y. round64 x = Finite y \<and> x * (1 - 1 / 2 ^ 53) \<le> y \<and> y \<le> x * (1 + 1 / 2 ^ 53)"
proof (cases "x = 0")
  case True
  then show ?thesis by simp
next
  case False
  with assms have lo: "1 / 2 ^ 1022 \<le> x" by blast
  have ax: "\<bar>x\<bar> = x" using assms(1) by simp
  have "(2::real) powi (- 1022) = 1 / 2 ^ 1022"
    by (simp add: power_int_minus inverse_eq_divide)
  with lo have l: "2 powi (- 1022) \<le> \<bar>x\<bar>" by (simp only: ax)
  have h: "\<bar>x\<bar> \<le> 2 powi 1023" using assms(2) by (simp add: ax)
  from round64_near[OF l h] obtain y where y: "round64 x = Finite y"
    and c: "\<bar>y - x\<bar> \<le> \<bar>x\<bar> / 2 ^ 53" by blast
  from c have "\<bar>y - x\<bar> \<le> x / 2 ^ 53" by (simp only: ax)
  then have "x - x / 2 ^ 53 \<le> y" "y \<le> x + x / 2 ^ 53" by linarith+
  then have "x * (1 - 1 / 2 ^ 53) \<le> y \<and> y \<le> x * (1 + 1 / 2 ^ 53)"
    by (simp add: algebra_simps)
  with y show ?thesis by blast
qed

lemma weighted_average_between:
  fixes a b :: real
  assumes "0 < n + m"
  shows "min a b \<le> (real n * a + real m * b) / real (n + m)
       \<and> (real n * a + real m * b) / real (n + m) \<le> max a b"
proof -
  have pos: "0 < real (n + m)" using assms by (simp only: of_nat_0_less_iff)
  have "min a b * real (n + m) \<le> real n * a + real m * b"
  proof -
    have "real n * min a b \<le> real n * a" "real m * min a b \<le> real m * b"
      by (simp_all add: mult_left_mono)
    then show ?thesis by (simp add: algebra_simps)
  qed
  moreover have "real n * a + real m * b \<le> max a b * real (n + m)"
  proof -
    have "real n * a \<le> real n * max a b" "real m * b \<le> real m * max a b"
      by (simp_all add: mult_left_mono)
    then show ?thesis by (simp add: algebra_simps)
  qed
  ultimately show ?thesis using pos by (simp only: pos_le_divide_eq pos_divide_le_eq)
qed

lemma scaled_nonneg_range:
  fixes a :: real
  assumes "0 \<le> a" "a \<le> 1" "a = 0 \<or> 1 / 2 ^ 900 \<le> a" "n < 2 ^ 53"
  shows "0 \<le> real n * a \<and> real n * a \<le> 2 ^ 53
         \<and> (real n * a = 0 \<or> 1 / 2 ^ 900 \<le> real n * a)"
proof -
  have n: "real n \<le> 2 ^ 53"
  proof -
    have "real n < real (2 ^ 53)" using assms(4) by (simp only: of_nat_less_iff)
    then show ?thesis by simp
  qed
  have 1: "0 \<le> real n * a" using assms(1) by simp
  have "real n * a \<le> real n * 1" using assms(2) by (intro mult_left_mono) simp_all
  with n have 2: "real n * a \<le> 2 ^ 53" by simp
  have 3: "real n * a = 0 \<or> 1 / 2 ^ 900 \<le> real n * a"
  proof (cases "n = 0 \<or> a = 0")
    case True
    then show ?thesis by auto
  next
    case False
    then have "1 \<le> real n" and "1 / 2 ^ 900 \<le> a" using assms(3) by auto
    then have "1 * (1 / 2 ^ 900) \<le> real n * a"
      by (intro mult_mono) simp_all
    then show ?thesis by simp
  qed
  from 1 2 3 show ?thesis by blast
qed

lemma weighted_average_rounded:
  fixes a b :: real
  assumes a: "0 \<le> a" "a \<le> 1" "a = 0 \<or> 1 / 2 ^ 900 \<le> a"
      and b: "0 \<le> b" "b \<le> 1" "b = 0 \<or> 1 / 2 ^ 900 \<le> b"
      and nm: "0 < n + m" "n + m < 2 ^ 53"
  shows "\<exists>r. f_div (f_add (f_mul (f_of_nat n) (Finite a)) (f_mul (f_of_nat m) (Finite b)))
                   (f_of_nat (n + m)) = Finite r
             \<and> min a b * (1 - 1 / 2 ^ 51) \<le> r \<and> r \<le> max a b * (1 + 1 / 2 ^ 51)"
proof -
  define c :: real where "c = 1 + 1 / 2 ^ 53"
  define d :: real where "d = 1 - 1 / 2 ^ 53"
  define N :: real where "N = real (n + m)"
  define X :: real where "X = real n * a + real m * b"
  have c: "1 \<le> c" "c ^ 3 \<le> 1 + 1 / 2 ^ 51" "c \<le> 2"
    by (simp_all add: c_def power_divide)
  have d: "0 \<le> d" "d \<le> 1" "1 - 1 / 2 ^ 51 \<le> d ^ 3" "1 / 2 \<le> d"
    by (simp_all add: d_def power_divide)
  have n: "n < 2 ^ 53" and m: "m < 2 ^ 53" using nm(2) by simp_all
  have Npos: "0 < N" using nm(1) by (simp only: N_def of_nat_0_less_iff)
  have N1: "1 \<le> N"
  proof -
    have "1 \<le> n + m" using nm(1) by linarith
    then have "real 1 \<le> real (n + m)" by (simp only: of_nat_le_iff)
    then show ?thesis by (simp add: N_def)
  qed
  have Nup: "N \<le> 2 ^ 53"
  proof -
    have "real (n + m) < real (2 ^ 53)" using nm(2) by (simp only: of_nat_less_iff)
    then show ?thesis by (simp add: N_def)
  qed
  note ra = scaled_nonneg_range[OF a n] and rb = scaled_nonneg_range[OF b m]
  \<comment> \<open>the two products\<close>
  have "\<exists>y. round64 (real n * a) = Finite y \<and> real n * a * d \<le> y \<and> y \<le> real n * a * c"
    unfolding c_def d_def using ra by (intro round64_rel_nonneg) auto
  then obtain p1 where p1: "round64 (real n * a) = Finite p1"
    and p1l: "real n * a * d \<le> p1" and p1u: "p1 \<le> real n * a * c" by blast
  have "\<exists>y. round64 (real m * b) = Finite y \<and> real m * b * d \<le> y \<and> y \<le> real m * b * c"
    unfolding c_def d_def using rb by (intro round64_rel_nonneg) auto
  then obtain p2 where p2: "round64 (real m * b) = Finite p2"
    and p2l: "real m * b * d \<le> p2" and p2u: "p2 \<le> real m * b * c" by blast
  have X0: "0 \<le> X" using ra rb by (simp add: X_def)
  have Xup: "X \<le> 2 ^ 54" using ra rb by (simp add: X_def)
  have sl: "X * d \<le> p1 + p2" using p1l p2l by (simp add: X_def algebra_simps)
  have su: "p1 + p2 \<le> X * c" using p1u p2u by (simp add: X_def algebra_simps)
  have Xd: "X * (1 / 2) \<le> X * d" using X0 d(4) by (intro mult_left_mono) simp_all
  have Xc: "X * c \<le> X * 2" using X0 c(3) by (intro mult_left_mono) simp_all
  have Xsmall: "X = 0 \<or> 1 / 2 ^ 900 \<le> X"
    using ra rb by (auto simp: X_def) (linarith+)?
  \<comment> \<open>their sum\<close>
  have s0: "0 \<le> p1 + p2" using sl X0 d(1) by (smt (verit) mult_nonneg_nonneg)
  have s_up: "p1 + p2 \<le> 2 ^ 1023" using su Xc Xup by simp
  have s_small: "p1 + p2 = 0 \<or> 1 / 2 ^ 1022 \<le> p1 + p2"
  proof (cases "X = 0")
    case True
    with sl su show ?thesis by simp
  next
    case False
    with Xsmall have "1 / 2 ^ 900 \<le> X" by blast
    then have "1 / 2 ^ 901 \<le> X * (1 / 2)" by simp
    with Xd sl have "1 / 2 ^ 901 \<le> p1 + p2" by linarith
    moreover have "(1::real) / 2 ^ 1022 \<le> 1 / 2 ^ 901" by simp
    ultimately show ?thesis by linarith
  qed
  have "\<exists>y. round64 (p1 + p2) = Finite y \<and> (p1 + p2) * d \<le> y \<and> y \<le> (p1 + p2) * c"
    unfolding c_def d_def using s0 s_up s_small by (intro round64_rel_nonneg) auto
  then obtain s where s: "round64 (p1 + p2) = Finite s"
    and s_l: "(p1 + p2) * d \<le> s" and s_u: "s \<le> (p1 + p2) * c" by blast
  have sXl: "X * d * d \<le> s"
  proof -
    have "X * d * d \<le> (p1 + p2) * d" using sl d(1) by (intro mult_right_mono)
    with s_l show ?thesis by linarith
  qed
  have sXu: "s \<le> X * c * c"
  proof -
    have "(p1 + p2) * c \<le> X * c * c" using su c(1) by (intro mult_right_mono) simp_all
    with s_u show ?thesis by linarith
  qed
  \<comment> \<open>the quotient\<close>
  let ?q = "s / N"
  have s_nonneg: "0 \<le> s" using s_l s0 d(1) by (smt (verit) mult_nonneg_nonneg)
  have q0: "0 \<le> ?q" using s_nonneg Npos by simp
  have s_le: "s \<le> 2 ^ 56"
  proof -
    have "X * c * c \<le> X * 2 * 2" using X0 c(1,3) by (intro mult_mono) simp_all
    with sXu Xup show ?thesis by simp
  qed
  have q_up: "?q \<le> 2 ^ 1023"
  proof -
    have "?q \<le> s / 1" using N1 s_nonneg by (intro divide_left_mono) simp_all
    with s_le show ?thesis by simp
  qed
  have q_small: "?q = 0 \<or> 1 / 2 ^ 1022 \<le> ?q"
  proof (cases "X = 0")
    case True
    with sXu s_nonneg have "s = 0" by simp
    then show ?thesis by simp
  next
    case False
    with Xsmall have "1 / 2 ^ 900 \<le> X" by blast
    then have "1 / 2 ^ 902 \<le> X * (1 / 2) * (1 / 2)" by simp
    also have "\<dots> \<le> X * d * d" using X0 d(1,4) by (intro mult_mono) simp_all
    finally have "1 / 2 ^ 902 \<le> s" using sXl by linarith
    then have "1 / 2 ^ 902 / 2 ^ 53 \<le> s / 2 ^ 53" by (simp add: divide_right_mono)
    also have "\<dots> \<le> s / N" using Nup Npos s_nonneg by (intro divide_left_mono) simp_all
    finally have "1 / 2 ^ 902 / 2 ^ 53 \<le> ?q" .
    moreover have "(1::real) / 2 ^ 1022 \<le> 1 / 2 ^ 902 / 2 ^ 53" by simp
    ultimately show ?thesis by linarith
  qed
  have "\<exists>y. round64 ?q = Finite y \<and> ?q * d \<le> y \<and> y \<le> ?q * c"
    unfolding c_def d_def using q0 q_up q_small by (intro round64_rel_nonneg) auto
  then obtain r where r: "round64 ?q = Finite r"
    and r_l: "?q * d \<le> r" and r_u: "r \<le> ?q * c" by blast
  \<comment> \<open>the bounds\<close>
  let ?A = "X / N"
  from weighted_average_between[OF nm(1), of a b]
  have A: "min a b \<le> ?A" "?A \<le> max a b" by (simp_all add: X_def N_def)
  have lo0: "0 \<le> min a b" using a(1) b(1) by simp
  have A0: "0 \<le> ?A" using X0 Npos by simp
  have "r \<le> ?A * c ^ 3"
  proof -
    have "?q \<le> X * c * c / N" using sXu Npos by (simp add: divide_right_mono)
    then have "?q * c \<le> X * c * c / N * c" using c(1) by (intro mult_right_mono) simp_all
    with r_u have "r \<le> X * c * c / N * c" by linarith
    then show ?thesis by (simp add: power3_eq_cube algebra_simps)
  qed
  also have "\<dots> \<le> max a b * c ^ 3" using A(2) c(1) by (intro mult_right_mono) simp_all
  also have "\<dots> \<le> max a b * (1 + 1 / 2 ^ 51)"
    using c(2) A0 A(2) by (intro mult_left_mono) simp_all
  finally have upper: "r \<le> max a b * (1 + 1 / 2 ^ 51)" .
  have "min a b * (1 - 1 / 2 ^ 51) \<le> min a b * d ^ 3"
    using d(3) lo0 by (intro mult_left_mono) simp_all
  also have "\<dots> \<le> ?A * d ^ 3" using A(1) d(1) by (intro mult_right_mono) simp_all
  also have "\<dots> \<le> r"
  proof -
    have "X * d * d / N \<le> ?q" using sXl Npos by (simp add: divide_right_mono)
    then have "X * d * d / N * d \<le> ?q * d" using d(1) by (intro mult_right_mono) simp_all
    with r_l have "X * d * d / N * d \<le> r" by linarith
    then show ?thesis by (simp add: power3_eq_cube algebra_simps)
  qed
  finally have lower: "min a b * (1 - 1 / 2 ^ 51) \<le> r" .
  have "f_div (f_add (f_mul (f_of_nat n) (Finite a)) (f_mul (f_of_nat m) (Finite b)))
          (f_of_nat (n + m)) = Finite r"
  proof -
    have fn: "f_of_nat n = Finite (real n)" by (rule f_of_nat_exact[OF n])
    have fm: "f_of_nat m = Finite (real m)" by (rule f_of_nat_exact[OF m])
    have fnm: "f_of_nat (n + m) = Finite N" by (simp only: N_def f_of_nat_exact[OF nm(2)])
    have N0: "(N = 0) = False" using Npos by simp
    show ?thesis
      by (simp only: fn fm fnm f_mul.simps p1 p2 f_add.simps s f_div.simps N0 if_False r)
  qed
  with lower upper show ?thesis by blast
qed

text \<open>
  The rounding of a normal number evaluated: with \<open>e\<close> the binary exponent of
  \<open>x\<close>, the multiple of \<open>2 powi (e - 52)\<close> nearest to \<open>x\<close>.
\<close>

lemma round64_eval:
  assumes b1: "2 powi e \<le> \<bar>x\<bar>" and b2: "\<bar>x\<bar> < 2 powi (e + 1)"
      and e_lo: "- 1022 \<le> e" and e_hi: "e \<le> 1022"
      and k: "round_half_even (x / 2 powi (e - 52)) = k"
  shows "round64 x = Finite (of_int k * 2 powi (e - 52))"
proof -
  have "0 < (2::real) powi e" by simp
  then have pos: "0 < \<bar>x\<bar>" using b1 by linarith
  then have x0: "x \<noteq> 0" by simp
  have fl: "\<lfloor>log 2 \<bar>x\<bar>\<rfloor> = e" by (rule floor_log2_unique[OF b1 b2])
  have mx: "max \<lfloor>log 2 \<bar>x\<bar>\<rfloor> (- 1022) = e" using e_lo by (simp only: fl max_absorb1)
  define U :: real where "U = 2 powi (e - 52)"
  have u: "0 < U" by (simp add: U_def)
  have ue: "U = 2 powi (e + 1) / 2 ^ 53"
    using power_int_diff[of "2::real" "e + 1" 53] by (simp add: U_def)
  have "\<bar>of_int k * U - x\<bar> = \<bar>of_int k - x / U\<bar> * U"
  proof -
    have "of_int k * U - x = (of_int k - x / U) * U" using u by (simp add: field_simps)
    then show ?thesis using u by (simp add: abs_mult)
  qed
  also have "\<dots> \<le> (1 / 2) * U"
    using round_half_even_close[of "x / U"] u k
    by (intro mult_right_mono) (simp_all add: U_def)
  finally have "\<bar>of_int k * U\<bar> \<le> \<bar>x\<bar> + U / 2" by linarith
  also have "\<dots> < 2 powi (e + 1) + 2 powi (e + 1) / 2 ^ 53" using b2 u by (simp add: ue)
  also have "\<dots> \<le> 2 powi 1023 + 2 powi 1023 / 2 ^ 53"
  proof -
    have "(2::real) powi (e + 1) \<le> 2 powi 1023"
      using e_hi by (intro power_int_increasing) simp_all
    then show ?thesis by (intro add_mono divide_right_mono) simp_all
  qed
  also have "\<dots> < (2::real) ^ 1024" by simp
  finally have fin: "\<not> 2 ^ 1024 \<le> \<bar>real_of_int k * 2 powi (e - 52)\<bar>"
    by (simp add: U_def)
  have "round64 x = (if 2 ^ 1024 \<le> \<bar>real_of_int k * 2 powi (e - 52)\<bar>
                     then Infinite (0 < x) else Finite (real_of_int k * 2 powi (e - 52)))"
    using x0 by (simp only: round64_def Let_def mx k if_False)
  then show ?thesis using fin by (simp only: if_False)
qed

lemma round64_examples:
  "round64 1 = Finite 1" "round64 2 = Finite 2" "round64 (1 / 2) = Finite (1 / 2)"
  "round64 (1 / 4) = Finite (1 / 4)" "round64 (3 / 4) = Finite (3 / 4)"
  "round64 (3 / 2) = Finite (3 / 2)" "round64 (3 / 8) = Finite (3 / 8)"
  using round64_dyadic[of 1 0] round64_dyadic[of 2 0] round64_dyadic[of 1 1]
        round64_dyadic[of 1 2] round64_dyadic[of 3 2] round64_dyadic[of 3 1]
        round64_dyadic[of 3 3]
  by simp_all

text \<open>The four roundings of the example with 22 and 44 samples.\<close>

lemma example_rounding_steps:
  "round64 (22 * (6141272219141585 / 2 ^ 53)) = Finite (8444249301319679 / 2 ^ 49)"
  "round64 (44 * (6141272219141585 / 2 ^ 53)) = Finite (8444249301319679 / 2 ^ 48)"
  "round64 (8444249301319679 / 2 ^ 49 + 8444249301319679 / 2 ^ 48)
     = Finite (6333186975989759 / 2 ^ 47)"
  "round64 (6333186975989759 / 2 ^ 47 / 66) = Finite (6141272219141584 / 2 ^ 53)"
proof -
  show "round64 (22 * (6141272219141585 / 2 ^ 53)) = Finite (8444249301319679 / 2 ^ 49)"
    using round64_eval[of 3 "22 * (6141272219141585 / 2 ^ 53)" 8444249301319679]
    by (simp add: round_half_even_def power_int_minus)
  show "round64 (44 * (6141272219141585 / 2 ^ 53)) = Finite (8444249301319679 / 2 ^ 48)"
    using round64_eval[of 4 "44 * (6141272219141585 / 2 ^ 53)" 8444249301319679]
    by (simp add: round_half_even_def power_int_minus)
  show "round64 (8444249301319679 / 2 ^ 49 + 8444249301319679 / 2 ^ 48)
          = Finite (6333186975989759 / 2 ^ 47)"
    using round64_eval[of 5 "8444249301319679 / 2 ^ 49 + 8444249301319679 / 2 ^ 48"
                          6333186975989759]
    by (simp add: round_half_even_def power_int_minus)
  show "round64 (6333186975989759 / 2 ^ 47 / 66) = Finite (6141272219141584 / 2 ^ 53)"
    using round64_eval[of "- 1" "6333186975989759 / 2 ^ 47 / 66" 6141272219141584]
    by (simp add: round_half_even_def power_int_minus)
qed

text \<open>
  Whenever \<open>estimate_recommendation_impact\<close> returns, its result is the aggregation of
  the two tables that the simulations returned: once both are there, no step can fail.
\<close>

lemma estimate_recommendation_impact_returns_effect:
  assumes "estimate_recommendation_impact w self c ft fe v = ((w1, self1), Inr out)"
  shows "\<exists>treated untreated. out = estimated_effect treated untreated
           \<and> treated_df self1 = Some treated \<and> untreated_df self1 = Some untreated
           \<and> estimated_effect_df self1 = Some out"
  using assms
  by (auto simp: estimate_recommendation_impact_def Let_def
      split: sum.splits prod.splits option.splits)

text \<open>
  The overall observed rate is the float64 evaluation of lines 318-324: two products, their
  sum and a quotient, each rounded.
\<close>

lemma observed_conversion_rate_formula:
  "observed_conversion_rate (part p (estimated_effect treated_t untreated_t))
     = f_div (f_add (f_mul (f_of_nat (samples_chosen (part p treated_t)))
                           (observed_rate (part p treated_t)))
                    (f_mul (f_of_nat (samples_chosen (part p untreated_t)))
                           (observed_rate (part p untreated_t))))
             (f_of_nat (samples_chosen (part p treated_t) + samples_chosen (part p untreated_t)))"
  by (simp add: part_estimated_effect estimated_effect_row_def Let_def)

text \<open>
  With 22 and 44 samples and both rates the double nearest to 15/22, the products round to
  14.999999999999998 and 29.999999999999996, their sum to 44.99999999999999 and the
  quotient by 66 to the double just below the two rates.
\<close>

lemma example_rounding_value:
  "f_div (f_add (f_mul (f_of_nat 22) (Finite (6141272219141585 / 2 ^ 53)))
                (f_mul (f_of_nat 44) (Finite (6141272219141585 / 2 ^ 53))))
         (f_of_nat (22 + 44))
   = Finite (6141272219141584 / 2 ^ 53)"
proof -
  have n: "f_of_nat 22 = Finite 22" "f_of_nat 44 = Finite 44" "f_of_nat (22 + 44) = Finite 66"
    using f_of_nat_exact[of 22] f_of_nat_exact[of 44] f_of_nat_exact[of 66] by simp_all
  have "f_div (f_add (f_mul (f_of_nat 22) (Finite (6141272219141585 / 2 ^ 53)))
                (f_mul (f_of_nat 44) (Finite (6141272219141585 / 2 ^ 53))))
         (f_of_nat (22 + 44))
        = f_div (Finite (6333186975989759 / 2 ^ 47)) (Finite 66)"
    by (simp only: n f_mul.simps f_add.simps example_rounding_steps)
  also have "\<dots> = round64 (6333186975989759 / 2 ^ 47 / 66)"
    by simp
  also have "\<dots> = Finite (6141272219141584 / 2 ^ 53)"
    by (rule example_rounding_steps(4))
  finally show ?thesis .
qed

text \<open>
  Claim C4, as amended. For each index key of the aggregated table, \<open># samples\<close> is
  exactly the sum of the two arms' counts of chosen samples, and the overall observed rate is
  the count-weighted average of the two arms' rates as float64 arithmetic evaluates it.
  When both rates are numbers of the interval from 0 to 1, each of them zero or at least
  \<open>1 / 2 ^ 900\<close>, and the two counts are not both zero and add up to less than
  \<open>2 ^ 53\<close>, the overall observed rate is a finite number and lies between the
  minimum and the maximum of the two rates up to a relative rounding error of
  \<open>1 / 2 ^ 51\<close>.
\<close>

theorem aggregation_samples_and_observed_rate:
  "n_samples (part p (estimated_effect treated_t untreated_t))
     = samples_chosen (part p treated_t) + samples_chosen (part p untreated_t)
   \<and> observed_conversion_rate (part p (estimated_effect treated_t untreated_t))
     = f_div (f_add (f_mul (f_of_nat (samples_chosen (part p treated_t)))
                           (observed_rate (part p treated_t)))
                    (f_mul (f_of_nat (samples_chosen (part p untreated_t)))
                           (observed_rate (part p untreated_t))))
             (f_of_nat (samples_chosen (part p treated_t) + samples_chosen (part p untreated_t)))
   \<and> (observed_rate (part p treated_t) = Finite a \<and> observed_rate (part p untreated_t) = Finite b
        \<and> 0 \<le> a \<and> a \<le> 1 \<and> (a = 0 \<or> 1 / 2 ^ 900 \<le> a)
        \<and> 0 \<le> b \<and> b \<le> 1 \<and> (b = 0 \<or> 1 / 2 ^ 900 \<le> b)
        \<and> 0 < samples_chosen (part p treated_t) + samples_chosen (part p untreated_t)
        \<and> samples_chosen (part p treated_t) + samples_chosen (part p untreated_t) < 2 ^ 53
      \<longrightarrow> (\<exists>r. observed_conversion_rate (part p (estimated_effect treated_t untreated_t))
                  = Finite r
               \<and> min a b * (1 - 1 / 2 ^ 51) \<le> r \<and> r \<le> max a b * (1 + 1 / 2 ^ 51)))"
proof (intro conjI impI)
  show "n_samples (part p (estimated_effect treated_t untreated_t))
     = samples_chosen (part p treated_t) + samples_chosen (part p untreated_t)"
    by (simp add: part_estimated_effect estimated_effect_row_def Let_def)
next
  show f: "observed_conversion_rate (part p (estimated_effect treated_t untreated_t))
     = f_div (f_add (f_mul (f_of_nat (samples_chosen (part p treated_t)))
                           (observed_rate (part p treated_t)))
                    (f_mul (f_of_nat (samples_chosen (part p untreated_t)))
                           (observed_rate (part p untreated_t))))
             (f_of_nat (samples_chosen (part p treated_t) + samples_chosen (part p untreated_t)))"
    by (rule observed_conversion_rate_formula)
  assume h: "observed_rate (part p treated_t) = Finite a \<and> observed_rate (part p untreated_t) = Finite b
        \<and> 0 \<le> a \<and> a \<le> 1 \<and> (a = 0 \<or> 1 / 2 ^ 900 \<le> a)
        \<and> 0 \<le> b \<and> b \<le> 1 \<and> (b = 0 \<or> 1 / 2 ^ 900 \<le> b)
        \<and> 0 < samples_chosen (part p treated_t) + samples_chosen (part p untreated_t)
        \<and> samples_chosen (part p treated_t) + samples_chosen (part p untreated_t) < 2 ^ 53"
  then have ra: "observed_rate (part p treated_t) = Finite a"
    and rb: "observed_rate (part p untreated_t) = Finite b"
    and a: "0 \<le> a" "a \<le> 1" "a = 0 \<or> 1 / 2 ^ 900 \<le> a"
    and b: "0 \<le> b" "b \<le> 1" "b = 0 \<or> 1 / 2 ^ 900 \<le> b"
    and nm: "0 < samples_chosen (part p treated_t) + samples_chosen (part p untreated_t)"
            "samples_chosen (part p treated_t) + samples_chosen (part p untreated_t) < 2 ^ 53"
    by simp_all
  from weighted_average_rounded[OF a b nm]
  show "\<exists>r. observed_conversion_rate (part p (estimated_effect treated_t untreated_t)) = Finite r
             \<and> min a b * (1 - 1 / 2 ^ 51) \<le> r \<and> r \<le> max a b * (1 + 1 / 2 ^ 51)"
    by (simp only: f ra rb)
qed

lemmas aggregation_eval =
  part_def estimated_effect_def estimated_effect_row_def Let_def f_of_nat_exact round64_examples

theorem aggregation_samples_and_observed_rate_witness:
  "observed_rate (part Train example_treated_impact) = Finite (1 / 2) \<and>
   observed_rate (part Train example_untreated_impact) = Finite (1 / 4) \<and>
   0 < samples_chosen (part Train example_treated_impact)
       + samples_chosen (part Train example_untreated_impact) \<and>
   samples_chosen (part Train example_treated_impact)
       + samples_chosen (part Train example_untreated_impact) < 2 ^ 53 \<and>
   n_samples (part Train (estimated_effect example_treated_impact example_untreated_impact)) = 4 \<and>
   (\<exists>r. observed_conversion_rate
          (part Train (estimated_effect example_treated_impact example_untreated_impact)) = Finite r
        \<and> min (1 / 2) (1 / 4) * (1 - 1 / 2 ^ 51) \<le> r \<and> r \<le> max (1 / 2) (1 / 4) * (1 + 1 / 2 ^ 51)) \<and>
   observed_conversion_rate
     (part Train (estimated_effect example_treated_impact example_untreated_impact)) = Finite (3 / 8)"
proof -
  have h: "observed_rate (part Train example_treated_impact) = Finite (1 / 2)"
          "observed_rate (part Train example_untreated_impact) = Finite (1 / 4)"
          "0 < samples_chosen (part Train example_treated_impact)
               + samples_chosen (part Train example_untreated_impact)"
          "samples_chosen (part Train example_treated_impact)
               + samples_chosen (part Train example_untreated_impact) < 2 ^ 53"
    by (simp_all add: part_def example_treated_impact_def example_untreated_impact_def)
  have r: "(0::real) \<le> 1 / 2" "(1::real) / 2 \<le> 1" "(1::real) / 2 = 0 \<or> 1 / 2 ^ 900 \<le> (1::real) / 2"
          "(0::real) \<le> 1 / 4" "(1::real) / 4 \<le> 1" "(1::real) / 4 = 0 \<or> 1 / 2 ^ 900 \<le> (1::real) / 4"
    by simp_all
  have v: "observed_conversion_rate
     (part Train (estimated_effect example_treated_impact example_untreated_impact)) = Finite (3 / 8)"
    by (simp add: aggregation_eval example_treated_impact_def example_untreated_impact_def)
  from aggregation_samples_and_observed_rate
         [of Train example_treated_impact example_untreated_impact "1 / 2" "1 / 4"] h r
  have "n_samples (part Train (estimated_effect example_treated_impact example_untreated_impact))
          = samples_chosen (part Train example_treated_impact)
            + samples_chosen (part Train example_untreated_impact)"
    and "\<exists>r. observed_conversion_rate
          (part Train (estimated_effect example_treated_impact example_untreated_impact)) = Finite r
        \<and> min (1 / 2) (1 / 4) * (1 - 1 / 2 ^ 51) \<le> r \<and> r \<le> max (1 / 2) (1 / 4) * (1 + 1 / 2 ^ 51)"
    by blast+
  moreover have "samples_chosen (part Train example_treated_impact)
            + samples_chosen (part Train example_untreated_impact) = 4"
    by (simp add: part_def example_treated_impact_def example_untreated_impact_def)
  ultimately show ?thesis using h v by simp
qed

text \<open>
  Claim C4 as stated fails in two ways. Where an arm has no row under a key its observed rate
  is NaN, the product of its count 0 with NaN is NaN, and the overall observed rate is NaN,
  which lies between nothing: here the treated arm has 2 samples with rate 0.5 under train
  and the untreated arm has none. And where both arms have finite rates the rounding of the
  products can carry the result out of the interval: with 22 and 44 samples and both rates
  0.6818181818181818 (the double nearest to 15/22) the overall rate is 0.6818181818181817,
  below both.
\<close>

theorem aggregation_observed_rate_counterexample:
  "samples_chosen (part Train example_treated_impact) = 2 \<and>
   observed_rate (part Train example_treated_impact) = Finite (1 / 2) \<and>
   samples_chosen (part Train example_empty_arm_impact) = 0 \<and>
   observed_conversion_rate (part Train (estimated_effect example_treated_impact example_empty_arm_impact))
     = NaN \<and>
   \<not> lies_between
        (observed_conversion_rate
           (part Train (estimated_effect example_treated_impact example_empty_arm_impact)))
        (observed_rate (part Train example_treated_impact))
        (observed_rate (part Train example_empty_arm_impact)) \<and>
   samples_chosen (part Train example_rounding_treated_impact) = 22 \<and>
   samples_chosen (part Train example_rounding_untreated_impact) = 44 \<and>
   observed_rate (part Train example_rounding_treated_impact) = Finite (6141272219141585 / 2 ^ 53) \<and>
   observed_rate (part Train example_rounding_untreated_impact) = Finite (6141272219141585 / 2 ^ 53) \<and>
   observed_conversion_rate
     (part Train (estimated_effect example_rounding_treated_impact example_rounding_untreated_impact))
     = Finite (6141272219141584 / 2 ^ 53) \<and>
   \<not> lies_between
        (observed_conversion_rate
           (part Train (estimated_effect example_rounding_treated_impact
                          example_rounding_untreated_impact)))
        (observed_rate (part Train example_rounding_treated_impact))
        (observed_rate (part Train example_rounding_untreated_impact))"
proof -
  have nan: "observed_conversion_rate
               (part Train (estimated_effect example_treated_impact example_empty_arm_impact)) = NaN"
    by (simp add: aggregation_eval example_treated_impact_def example_empty_arm_impact_def)
  have fields:
    "samples_chosen (part Train example_rounding_treated_impact) = 22"
    "samples_chosen (part Train example_rounding_untreated_impact) = 44"
    "observed_rate (part Train example_rounding_treated_impact) = Finite (6141272219141585 / 2 ^ 53)"
    "observed_rate (part Train example_rounding_untreated_impact) = Finite (6141272219141585 / 2 ^ 53)"
    by (simp_all add: part_def example_rounding_treated_impact_def
          example_rounding_untreated_impact_def)
  have rnd: "observed_conversion_rate
     (part Train (estimated_effect example_rounding_treated_impact example_rounding_untreated_impact))
     = Finite (6141272219141584 / 2 ^ 53)"
    by (simp only: observed_conversion_rate_formula fields example_rounding_value)
  show ?thesis
    by (simp only: nan rnd)
       (simp add: part_def lies_between_def example_treated_impact_def
          example_empty_arm_impact_def example_rounding_treated_impact_def
          example_rounding_untreated_impact_def)
qed

text \<open>
  Claim C5. The predicted improvement rate is the predicted conversion rate divided by the
  observed conversion rate, as a float64 division. The aggregation has no failing branch:
  where the observed rate is zero the result is no number but NaN (for a predicted rate of
  zero or NaN) or an infinity with the sign of the predicted rate.
\<close>

theorem predicted_improvement_rate_division:
  "predicted_improvement_rate (part p (estimated_effect treated_t untreated_t))
     = f_div (predicted_conversion_rate (part p (estimated_effect treated_t untreated_t)))
             (observed_conversion_rate (part p (estimated_effect treated_t untreated_t)))
   \<and> (observed_conversion_rate (part p (estimated_effect treated_t untreated_t)) = Finite 0
      \<longrightarrow> \<not> is_finite (predicted_improvement_rate (part p (estimated_effect treated_t untreated_t)))
        \<and> predicted_improvement_rate (part p (estimated_effect treated_t untreated_t))
          = (case predicted_conversion_rate (part p (estimated_effect treated_t untreated_t)) of
               Finite x \<Rightarrow> if x = 0 then NaN else Infinite (0 < x)
             | Infinite s \<Rightarrow> Infinite s
             | NaN \<Rightarrow> NaN))"
proof -
  let ?e = "part p (estimated_effect treated_t untreated_t)"
  have eq: "predicted_improvement_rate ?e
            = f_div (predicted_conversion_rate ?e) (observed_conversion_rate ?e)"
    by (simp add: part_estimated_effect estimated_effect_row_def Let_def)
  have z: "f_div q (Finite 0)
           = (case q of Finite x \<Rightarrow> if x = 0 then NaN else Infinite (0 < x)
              | Infinite s \<Rightarrow> Infinite s | NaN \<Rightarrow> NaN)" for q
    by (cases q) simp_all
  have nf: "\<not> is_finite (f_div q (Finite 0))" for q
    by (cases q) simp_all
  show ?thesis using eq z nf by simp
qed

theorem predicted_improvement_rate_division_witness:
  "observed_conversion_rate (part Test (estimated_effect example_treated_impact example_untreated_impact))
     = Finite 0 \<and>
   predicted_improvement_rate (part Test (estimated_effect example_treated_impact example_untreated_impact))
     = Infinite True"
  using predicted_improvement_rate_division [of Test example_treated_impact example_untreated_impact]
  by (simp add: aggregation_eval example_treated_impact_def example_untreated_impact_def)

subsection \<open>The constructor: the propensity step\<close>

lemma objs_alloc: "objs (fst (alloc d w)) a = (if a = next_addr w then d else objs w a)"
  by (simp add: alloc_def)

lemma init_models_events:
  "\<exists>evs. events (fst (init_models N w a tr te)) = events w @ evs
         \<and> Call_estimate_propensity \<notin> set evs"
  by (auto simp: init_models_def alloc_def Let_def split: sum.splits prod.splits)



lemma init_models_table:
  assumes "init_models N w a tr te = (w', Inr self)"
  shows "concat_train_test_df (objs w tr) (objs w te) = Inr (objs w' (df self))"
  using assms
  by (auto simp: init_models_def alloc_def Let_def split: sum.splits prod.splits if_splits)

lemma init_propensity_skip:
  assumes "\<not> (enable_ipw a \<and> col_propensity a \<notin> set (columns (objs w tr)))"
  shows "init_propensity N w a tr te = init_models N w a tr te"
  unfolding init_propensity_def by (rule if_not_P[OF assms])

lemma init_propensity_events:
  "\<exists>evs. events (fst (init_propensity N w a tr te)) = events w @ evs
         \<and> (Call_estimate_propensity \<in> set evs
              \<longleftrightarrow> enable_ipw a \<and> col_propensity a \<notin> set (columns (objs w tr)))"
proof (cases "enable_ipw a \<and> col_propensity a \<notin> set (columns (objs w tr))")
  case False
  then have "init_propensity N w a tr te = init_models N w a tr te"
    by (rule init_propensity_skip)
  with False init_models_events[of N w a tr te] show ?thesis by auto
next
  case True
  let ?w1 = "emit Call_estimate_propensity w"
  show ?thesis
  proof (cases "estimate_propensity N (objs ?w1 tr) (objs ?w1 te) a")
    case (Inl e)
    with True have "fst (init_propensity N w a tr te) = ?w1"
      by (simp add: init_propensity_def Let_def)
    with True show ?thesis by simp
  next
    case (Inr pr)
    obtain tr' te' where pr: "pr = (tr', te')" by (cases pr)
    let ?w3 = "fst (alloc te' (fst (alloc tr' ?w1)))"
    from True Inr pr
    have eq: "init_propensity N w a tr te
              = init_models N ?w3 a (next_addr ?w1) (Suc (next_addr ?w1))"
      by (simp add: init_propensity_def Let_def alloc_def)
    have ev: "events ?w3 = events w @ [Call_estimate_propensity]"
      by (simp add: alloc_def)
    from init_models_events[of N ?w3 a "next_addr ?w1" "Suc (next_addr ?w1)"]
    obtain evs where "events (fst (init_models N ?w3 a (next_addr ?w1) (Suc (next_addr ?w1))))
                       = events ?w3 @ evs" by blast
    with eq ev have "events (fst (init_propensity N w a tr te))
                     = events w @ (Call_estimate_propensity # evs)" by simp
    with True show ?thesis by (metis list.set_intros(1))
  qed
qed

lemma init_unfold:
  assumes "set (columns (objs w a)) = set (columns (objs w b))"
  shows "init N w (DataFrameRef a) (DataFrameRef b) kwargs
         = init_propensity N
             (fst (alloc (reset_index (objs (fst (alloc (reset_index (objs w a)) w)) b))
                     (fst (alloc (reset_index (objs w a)) w))))
             ((kwargs default_args)\<lparr>cols_features :=
                 Some (py_or_list (cols_features (kwargs default_args))
                        (get_cols_features (objs w a)
                           [col_treatment (kwargs default_args), col_outcome (kwargs default_args),
                            col_propensity (kwargs default_args), col_cate (kwargs default_args),
                            col_recommendation (kwargs default_args)]))\<rparr>)
             (next_addr w) (Suc (next_addr w))"
  using assms by (simp add: init_def Let_def alloc_def copy_def)

lemma map_of_map_keyed:
  "map_of (map (\<lambda>(c, vs). (c, f c vs)) al) k = map_option (f k) (map_of al k)"
  by (induction al) auto

lemma concat_train_test_df_column:
  assumes "concat_train_test_df tr te = Inr d"
      and "map_of (data tr) c = Some vt" "map_of (data te) c = Some ve"
  shows "map_of (data d) c = Some (vt @ ve)"
proof -
  from assms(1) have "data d = map (\<lambda>(c, vs). (c, vs @ (case map_of (data te) c of
                                                     Some ws \<Rightarrow> ws | None \<Rightarrow> []))) (data tr)"
    by (auto simp: concat_train_test_df_def split: if_splits)
  then show ?thesis using assms(2,3) by (simp add: map_of_map_keyed)
qed

text \<open>
  Claim C7. Let the constructor run on two allocated tables with the same column set. The
  events it adds contain a call of \<open>estimate_propensity\<close> if and only if
  \<open>enable_ipw\<close> holds and the propensity column is not among the columns of the train
  table (which has the columns of the test table), whether or not the constructor then
  succeeds. In every other case, when the constructor returns a session, its combined table
  is the combination of the two input tables with their indexes reset, and a propensity
  column that the caller supplied is in it cell by cell: the train cells, then the test
  cells.
\<close>

theorem propensity_estimation_invoked_iff:
  assumes cols: "set (columns (objs w a)) = set (columns (objs w b))"
      and alloc: "a < next_addr w" "b < next_addr w"
      and run: "init N w (DataFrameRef a) (DataFrameRef b) kwargs = (w', r)"
  shows "(\<exists>evs. events w' = events w @ evs \<and>
            (Call_estimate_propensity \<in> set evs
               \<longleftrightarrow> enable_ipw (kwargs default_args)
                   \<and> col_propensity (kwargs default_args) \<notin> set (columns (objs w a))))
       \<and> (\<forall>self vt ve.
             \<not> (enable_ipw (kwargs default_args)
                 \<and> col_propensity (kwargs default_args) \<notin> set (columns (objs w a)))
             \<and> r = Inr self
             \<and> map_of (data (objs w a)) (col_propensity (kwargs default_args)) = Some vt
             \<and> map_of (data (objs w b)) (col_propensity (kwargs default_args)) = Some ve
             \<longrightarrow> concat_train_test_df (reset_index (objs w a)) (reset_index (objs w b))
                   = Inr (objs w' (df self))
               \<and> map_of (data (objs w' (df self))) (col_propensity (kwargs default_args))
                   = Some (vt @ ve))"
proof -
  let ?a0 = "kwargs default_args"
  let ?w2 = "fst (alloc (reset_index (objs (fst (alloc (reset_index (objs w a)) w)) b))
                     (fst (alloc (reset_index (objs w a)) w)))"
  let ?a1 = "?a0\<lparr>cols_features :=
                 Some (py_or_list (cols_features ?a0)
                        (get_cols_features (objs w a)
                           [col_treatment ?a0, col_outcome ?a0, col_propensity ?a0, col_cate ?a0,
                            col_recommendation ?a0]))\<rparr>"
  have eq: "init N w (DataFrameRef a) (DataFrameRef b) kwargs
            = init_propensity N ?w2 ?a1 (next_addr w) (Suc (next_addr w))"
    by (rule init_unfold[OF cols])
  have tr: "objs ?w2 (next_addr w) = reset_index (objs w a)"
    by (simp add: alloc_def)
  have te: "objs ?w2 (Suc (next_addr w)) = reset_index (objs w b)"
    using alloc by (simp add: alloc_def)
  have ev: "events ?w2 = events w" by (simp add: alloc_def)
  have colsr: "columns (reset_index d) = columns d" for d
    by (simp add: columns_def reset_index_def)
  have w': "w' = fst (init_propensity N ?w2 ?a1 (next_addr w) (Suc (next_addr w)))"
    using run eq by simp
  have first: "\<exists>evs. events w' = events w @ evs \<and>
            (Call_estimate_propensity \<in> set evs
               \<longleftrightarrow> enable_ipw ?a0 \<and> col_propensity ?a0 \<notin> set (columns (objs w a)))"
    using init_propensity_events[of N ?w2 ?a1 "next_addr w" "Suc (next_addr w)"]
    by (simp only: w' ev tr colsr) simp
  have second: "concat_train_test_df (reset_index (objs w a)) (reset_index (objs w b))
                   = Inr (objs w' (df self))
               \<and> map_of (data (objs w' (df self))) (col_propensity ?a0) = Some (vt @ ve)"
    if no: "\<not> (enable_ipw ?a0 \<and> col_propensity ?a0 \<notin> set (columns (objs w a)))"
      and r: "r = Inr self"
      and vt: "map_of (data (objs w a)) (col_propensity ?a0) = Some vt"
      and ve: "map_of (data (objs w b)) (col_propensity ?a0) = Some ve"
    for self vt ve
  proof -
    from no have "\<not> (enable_ipw ?a1
                     \<and> col_propensity ?a1 \<notin> set (columns (objs ?w2 (next_addr w))))"
      by (simp add: tr colsr)
    then have "init_propensity N ?w2 ?a1 (next_addr w) (Suc (next_addr w))
                  = init_models N ?w2 ?a1 (next_addr w) (Suc (next_addr w))"
      by (rule init_propensity_skip)
    with run eq r have "init_models N ?w2 ?a1 (next_addr w) (Suc (next_addr w)) = (w', Inr self)"
      by simp
    from init_models_table[OF this]
    have c: "concat_train_test_df (reset_index (objs w a)) (reset_index (objs w b))
             = Inr (objs w' (df self))"
      by (simp only: tr te)
    have "map_of (data (reset_index (objs w a))) (col_propensity ?a0) = Some vt"
         "map_of (data (reset_index (objs w b))) (col_propensity ?a0) = Some ve"
      using vt ve by (simp_all add: reset_index_def)
    from concat_train_test_df_column[OF c this] c show ?thesis by simp
  qed
  from first second show ?thesis by blast
qed

lemmas example_eval =
  init_def init_propensity_def init_models_def example_world_def example_train_def
  example_test_def example_nodes_def example_model_for_def default_args_def columns_def
  alloc_def copy_def reset_index_def concat_train_test_df_def xs_df_def emit_def
  py_or_list_def get_cols_features_def select_rows_def Let_def upt_rec insert_commute

theorem propensity_estimation_invoked_iff_witness:
  "set (columns (objs example_world 0)) = set (columns (objs example_world 1)) \<and>
   0 < next_addr example_world \<and> 1 < next_addr example_world \<and>
   Call_estimate_propensity
     \<in> set (events (fst (init example_nodes example_world (DataFrameRef 0) (DataFrameRef 1) id))) \<and>
   (case init example_nodes example_world (DataFrameRef 0) (DataFrameRef 1)
           (\<lambda>a. a\<lparr>col_propensity := ''x''\<rparr>) of
      (w', Inl e) \<Rightarrow> False
    | (w', Inr self) \<Rightarrow>
        Call_estimate_propensity \<notin> set (events w') \<and>
        map_of (data (objs w' (df self))) ''x'' = Some [5, 6, 7, 8, 9, 4])"
proof -
  let ?k = "\<lambda>a. a\<lparr>col_propensity := ''x''\<rparr>"
  let ?i1 = "init example_nodes example_world (DataFrameRef 0) (DataFrameRef 1) id"
  let ?i2 = "init example_nodes example_world (DataFrameRef 0) (DataFrameRef 1) ?k"
  have c: "set (columns (objs example_world 0)) = set (columns (objs example_world 1))"
    by (simp add: example_world_def example_train_def example_test_def columns_def insert_commute)
  have a: "0 < next_addr example_world" "1 < next_addr example_world"
    by (simp_all add: example_world_def)
  have on: "enable_ipw (id default_args)
            \<and> col_propensity (id default_args) \<notin> set (columns (objs example_world 0))"
    by (simp add: default_args_def example_world_def example_train_def columns_def)
  have off: "\<not> (enable_ipw (?k default_args)
              \<and> col_propensity (?k default_args) \<notin> set (columns (objs example_world 0)))"
    by (simp add: default_args_def example_world_def example_train_def columns_def)
  have vt: "map_of (data (objs example_world 0)) (col_propensity (?k default_args)) = Some [5, 6, 7, 8]"
    by (simp add: example_world_def example_train_def)
  have ve: "map_of (data (objs example_world 1)) (col_propensity (?k default_args)) = Some [9, 4]"
    by (simp add: example_world_def example_test_def)
  have ev0: "events example_world = []" by (simp add: example_world_def)
  from propensity_estimation_invoked_iff [OF c a, of example_nodes id "fst ?i1" "snd ?i1"] on ev0
  have first: "Call_estimate_propensity \<in> set (events (fst ?i1))" by auto
  obtain self where r: "snd ?i2 = Inr self"
  proof -
    have "\<exists>self. snd ?i2 = Inr self" by (simp add: example_eval)
    then show ?thesis using that by blast
  qed
  from propensity_estimation_invoked_iff [OF c a, of example_nodes ?k "fst ?i2" "snd ?i2"] off ev0 r vt ve
  have second: "Call_estimate_propensity \<notin> set (events (fst ?i2)) \<and>
                map_of (data (objs (fst ?i2) (df self))) ''x'' = Some [5, 6, 7, 8, 9, 4]"
    by auto
  from r second
  have "(case ?i2 of (w', Inl e) \<Rightarrow> False
         | (w', Inr self) \<Rightarrow> Call_estimate_propensity \<notin> set (events w') \<and>
              map_of (data (objs w' (df self))) ''x'' = Some [5, 6, 7, 8, 9, 4])"
    by (auto split: prod.splits sum.splits)
  with c a first show ?thesis by simp
qed

subsection \<open>The caller's tables are never written\<close>





lemma separate_train_test_df [simp]: "df (fst (separate_train_test w self)) = df self"
  by (simp add: separate_train_test_def Let_def split: sum.splits)






subsection \<open>The CATE estimate\<close>






lemma example_init:
  "snd (init example_nodes example_world (DataFrameRef 0) (DataFrameRef 1) id) = Inr example_self
   \<and> objs (fst (init example_nodes example_world (DataFrameRef 0) (DataFrameRef 1) id)) 7 = example_df
   \<and> next_addr (fst (init example_nodes example_world (DataFrameRef 0) (DataFrameRef 1) id)) = 8
   \<and> events (fst (init example_nodes example_world (DataFrameRef 0) (DataFrameRef 1) id))
       = events example_world1"
  by (simp add: example_eval example_self_def example_df_def example_world1_def)

lemmas example_state =
  example_world1_def example_self_def example_df_def example_nodes_def example_model_for_def
  default_args_def



subsection \<open>The recommendation policy\<close>

lemma length_recommendation [simp]: "length (recommendation cs f) = length cs"
  by (simp add: recommendation_def rank_pct_def)




lemma xs_series_values:
  assumes "xs_series p (zip ls vs) = Inr s"
  shows "map snd s = select_rows p ls vs"
  using assms
  by (auto simp: xs_series_def select_rows_def Let_def split: if_splits)

lemma map_fst_concat_train_test:
  "map fst (concat_train_test tv ev)
   = map (\<lambda>i. Part Train (Row i)) [0..<length tv] @ map (\<lambda>i. Part Test (Row i)) [0..<length ev]"
  by (simp add: concat_train_test_def)

lemma map_snd_concat_train_test: "map snd (concat_train_test tv ev) = tv @ ev"
  by (simp add: concat_train_test_def)





lemma recommendation_by_cate_result:
  assumes run: "recommendation_by_cate d a fr = Inr d'"
      and cate: "map_of (data d) (col_cate a) = Some cate"
  shows "index d = map (\<lambda>i. Part Train (Row i))
                     [0..<length (recommendation (select_rows Train (index d) cate) (train fr))]
                 @ map (\<lambda>i. Part Test (Row i))
                     [0..<length (recommendation (select_rows Test (index d) cate) (test fr))]
       \<and> d' = d\<lparr>data := AList.update (col_recommendation a)
                   (recommendation (select_rows Train (index d) cate) (train fr)
                    @ recommendation (select_rows Test (index d) cate) (test fr)) (data d)\<rparr>"
proof -
  from run cate obtain st se where st: "xs_series Train (zip (index d) cate) = Inr st"
    and se: "xs_series Test (zip (index d) cate) = Inr se"
    and fin: "loc_set_series (col_recommendation a)
                (concat_train_test (recommendation (map snd st) (train fr))
                                   (recommendation (map snd se) (test fr))) d = Inr d'"
    by (auto simp: recommendation_by_cate_def getitem_def Let_def split: sum.splits)
  from fin show ?thesis
    by (auto simp: loc_set_series_def map_fst_concat_train_test map_snd_concat_train_test
        xs_series_values[OF st] xs_series_values[OF se] split: if_splits)
qed


lemmas recommendation_eval =
  recommendation_def rank_pct_def rank_first_descending_def comes_before_def Let_def upt_rec

lemma example_recommendation_train:
  "recommendation [1 / 2, 1 / 2, 7 / 10, 1 / 10] (1 / 2) = [1, 0, 1, 0]"
  by (simp add: recommendation_eval)

lemma example_recommendation_test:
  "recommendation [1 / 5, 9 / 10] (1 / 2) = [0, 1]"
  by (simp add: recommendation_eval)

lemma example_recommendation_quarter:
  "recommendation [1 / 2, 1 / 2, 7 / 10, 1 / 10] (1 / 4) = [0, 0, 1, 0]"
  by (simp add: recommendation_eval)

lemma example_recommendation_zero:
  "recommendation [1 / 2, 1 / 2, 7 / 10, 1 / 10] 0 = [0, 0, 0, 0]"
  by (simp add: recommendation_eval)



subsection \<open>Calling the impact estimation twice\<close>

lemma update_twice:
  "AList.update r R (AList.update c C (AList.update r R (AList.update c C al)))
   = AList.update r R (AList.update c C al)"
proof (cases "c = r")
  case True
  then show ?thesis by simp
next
  case False
  have 1: "map_of (AList.update r R (AList.update c C al)) c = Some C"
    using False by (simp add: update_conv')
  have 2: "map_of (AList.update r R (AList.update c C al)) r = Some R"
    by (simp add: update_conv')
  show ?thesis by (simp only: update_triv[OF 1] update_triv[OF 2])
qed

lemma recommendation_by_cate_again:
  assumes set1: "loc_set (col_cate a) cvals d0 = Inr d1"
      and run: "recommendation_by_cate d1 a fr = Inr d2"
  shows "\<exists>d3. loc_set (col_cate a) cvals d2 = Inr d3 \<and> recommendation_by_cate d3 a fr = Inr d2"
proof -
  let ?rt = "recommendation (select_rows Train (index d1) cvals) (train fr)"
  let ?re = "recommendation (select_rows Test (index d1) cvals) (test fr)"
  let ?R = "?rt @ ?re"
  from set1 have len: "length cvals = length (index d0)"
    and d1: "d1 = d0\<lparr>data := AList.update (col_cate a) cvals (data d0)\<rparr>"
    by (auto simp: loc_set_def split: if_splits)
  have col1: "map_of (data d1) (col_cate a) = Some cvals" by (simp add: d1 update_conv')
  from recommendation_by_cate_result[OF run col1]
  have idx: "index d1 = map (\<lambda>i. Part Train (Row i)) [0..<length ?rt]
                       @ map (\<lambda>i. Part Test (Row i)) [0..<length ?re]"
    and d2: "d2 = d1\<lparr>data := AList.update (col_recommendation a) ?R (data d1)\<rparr>"
    by blast+
  from run col1 obtain st se where st: "xs_series Train (zip (index d1) cvals) = Inr st"
    and se: "xs_series Test (zip (index d1) cvals) = Inr se"
    by (auto simp: recommendation_by_cate_def getitem_def Let_def split: sum.splits)
  let ?d3 = "d2\<lparr>data := AList.update (col_cate a) cvals (data d2)\<rparr>"
  have i2: "index d2 = index d1" by (simp add: d2)
  have i0: "index d1 = index d0" by (simp add: d1)
  have s3: "loc_set (col_cate a) cvals d2 = Inr ?d3"
    using len by (simp add: loc_set_def i2 i0)
  have col3: "map_of (data ?d3) (col_cate a) = Some cvals" by (simp add: update_conv')
  have i3: "index ?d3 = index d1" by (simp add: i2)
  have "recommendation_by_cate ?d3 a fr
        = loc_set_series (col_recommendation a)
            (concat_train_test (recommendation (map snd st) (train fr))
                               (recommendation (map snd se) (test fr))) ?d3"
    using st se col3 by (simp add: recommendation_by_cate_def getitem_def Let_def i2)
  also have "\<dots> = Inr (?d3\<lparr>data := AList.update (col_recommendation a) ?R (data ?d3)\<rparr>)"
    using idx
    by (simp add: loc_set_series_def map_fst_concat_train_test map_snd_concat_train_test
        xs_series_values[OF st] xs_series_values[OF se] i2)
  also have "?d3\<lparr>data := AList.update (col_recommendation a) ?R (data ?d3)\<rparr> = d2"
    by (simp add: d2 d1 update_twice)
  finally show ?thesis using s3 by blast
qed

lemma py_or_idem [simp]: "py_or v (py_or v d) = py_or v d"
  by (simp add: py_or_def split: option.splits)

text \<open>
  Claim C9. Let a call of \<open>estimate_recommendation_impact\<close> with an explicit CATE series
  (and any treatment fractions and verbosity) return the table \<open>out\<close>. The same call on
  the state it leaves returns \<open>out\<close> again, and leaves the combined table as it was.
\<close>

theorem estimate_recommendation_impact_idempotent:
  assumes run: "estimate_recommendation_impact w self (Some c) ft fe v = ((w1, self1), Inr out)"
  shows "snd (estimate_recommendation_impact w1 self1 (Some c) ft fe v) = Inr out
         \<and> objs (fst (fst (estimate_recommendation_impact w1 self1 (Some c) ft fe v))) (df self1)
             = objs w1 (df self1)"
proof -
  let ?a = "args self"
  let ?fr = "\<lparr> train = py_or ft (train (treatment_fractions self)),
               test = py_or fe (test (treatment_fractions self)) \<rparr>"
  from run obtain d1 d2 treated untreated
    where set1: "loc_set (col_cate ?a) (map snd c) (objs w (df self)) = Inr d1"
      and rec1: "recommendation_by_cate d1 ?a ?fr = Inr d2"
      and simt: "simulate_recommendation (model_for_treated self) ?a d2 (model_treated self)
                   (score_original_treatment_treated_df self) = Inr treated"
      and simu: "simulate_recommendation (model_for_untreated self) ?a d2 (model_untreated self)
                   (score_original_treatment_untreated_df self) = Inr untreated"
      and out: "out = estimated_effect treated untreated"
      and w1: "objs w1 (df self) = d2"
      and s1: "df self1 = df self" "args self1 = ?a" "treatment_fractions self1 = ?fr"
              "model_for_treated self1 = model_for_treated self"
              "model_for_untreated self1 = model_for_untreated self"
              "model_treated self1 = model_treated self"
              "model_untreated self1 = model_untreated self"
              "score_original_treatment_treated_df self1 = score_original_treatment_treated_df self"
              "score_original_treatment_untreated_df self1
                 = score_original_treatment_untreated_df self"
    by (auto simp: estimate_recommendation_impact_def Let_def objs_store
        split: sum.splits prod.splits if_splits)
  from recommendation_by_cate_again[OF set1 rec1]
  obtain d3 where set2: "loc_set (col_cate ?a) (map snd c) d2 = Inr d3"
    and rec2: "recommendation_by_cate d3 ?a ?fr = Inr d2" by blast
  have fr2: "\<lparr> train = py_or ft (train ?fr), test = py_or fe (test ?fr) \<rparr> = ?fr" by simp
  show ?thesis
    using set2 rec2 simt simu
    by (simp add: estimate_recommendation_impact_def Let_def s1 w1 fr2 objs_store out)
qed

lemmas impact_eval =
  estimate_recommendation_impact_def recommendation_by_cate_def getitem_def xs_series_def
  loc_set_series_def loc_set_def concat_train_test_def store_def emit_def py_or_def py_or_int_def
  select_rows_def example_row_def example_cate_def example_state Let_def

lemma example_impact_run:
  "\<exists>out. snd (estimate_recommendation_impact example_world1 example_self (Some example_cate)
               (Some (1 / 4)) (Some (1 / 2)) None) = Inr out"
  by (simp add: impact_eval example_recommendation_quarter example_recommendation_test)

theorem estimate_recommendation_impact_idempotent_witness:
  "\<exists>out. snd (estimate_recommendation_impact example_world1 example_self (Some example_cate)
               (Some (1 / 4)) (Some (1 / 2)) None) = Inr out
       \<and> snd (estimate_recommendation_impact
                (fst (fst (estimate_recommendation_impact example_world1 example_self
                             (Some example_cate) (Some (1 / 4)) (Some (1 / 2)) None)))
                (snd (fst (estimate_recommendation_impact example_world1 example_self
                             (Some example_cate) (Some (1 / 4)) (Some (1 / 2)) None)))
                (Some example_cate) (Some (1 / 4)) (Some (1 / 2)) None) = Inr out"
proof -
  let ?X = "estimate_recommendation_impact example_world1 example_self (Some example_cate)
              (Some (1 / 4)) (Some (1 / 2)) None"
  from example_impact_run obtain out where r: "snd ?X = Inr out" by blast
  then have run: "?X = ((fst (fst ?X), snd (fst ?X)), Inr out)" by (simp add: prod_eq_iff)
  from estimate_recommendation_impact_idempotent [OF run] r show ?thesis by blast
qed

subsection \<open>Overriding the treatment fractions\<close>

lemma fraction_override_stored:
  assumes "estimate_recommendation_impact w self c (Some x) fe v = ((w1, self1), Inr out)"
      and "x \<noteq> 0"
  shows "train (treatment_fractions self1) = x"
  using assms
  by (auto simp: estimate_recommendation_impact_def Let_def py_or_def
      split: sum.splits prod.splits option.splits)

text \<open>
  Claim C8 fails on the code for the value 0. The docstring keeps the stored fraction for
  the argument None only, but \<^verbatim>\<open>treatment_fraction_train or self.treatment_fractions.train\<close>
  also keeps it for 0.0: a call with the fraction 0 is the call with None. On the example
  session, whose stored train fraction is one half, the call with the train fraction 0
  leaves one half in place and recommends two of the four train rows, where the policy with
  the fraction 0 recommends none.
\<close>

theorem zero_treatment_fraction_is_ignored:
  "estimate_recommendation_impact w self c (Some 0) fe v
     = estimate_recommendation_impact w self c None fe v
   \<and> train (treatment_fractions (snd (fst (estimate_recommendation_impact example_world1
              example_self (Some example_cate) (Some 0) None None)))) = 1 / 2
   \<and> map_of (data (objs (fst (fst (estimate_recommendation_impact example_world1
              example_self (Some example_cate) (Some 0) None None))) (df example_self)))
        ''Recommendation'' = Some [1, 0, 1, 0, 0, 1]
   \<and> recommendation [1 / 2, 1 / 2, 7 / 10, 1 / 10] 0 = [0, 0, 0, 0]"
proof -
  have z: "py_or (Some 0) d = py_or None d" for d by (simp add: py_or_def)
  have g: "estimate_recommendation_impact w self c (Some 0) fe v
           = estimate_recommendation_impact w self c None fe v"
    unfolding estimate_recommendation_impact_def z ..
  have t: "train (treatment_fractions (snd (fst (estimate_recommendation_impact example_world1
              example_self (Some example_cate) (Some 0) None None)))) = 1 / 2"
    by (simp add: impact_eval example_recommendation_train example_recommendation_test)
  have r: "map_of (data (objs (fst (fst (estimate_recommendation_impact example_world1
              example_self (Some example_cate) (Some 0) None None))) (df example_self)))
        ''Recommendation'' = Some [1, 0, 1, 0, 0, 1]"
    by (simp add: impact_eval example_recommendation_train example_recommendation_test)
  from g t r example_recommendation_zero show ?thesis by blast
qed

end
